theory Spec2Isabelle
  imports Complex_Main
begin

section \<open>Numbers, vectors and boxes\<close>

text \<open>
  The model follows \<^verbatim>\<open>docs/src/Game.js\<close>. JavaScript numbers are modelled as
  real numbers: rounding, infinities and NaN are outside the model, so \<^verbatim>\<open>isNaN(v)\<close>
  is always false here. The few operations of the three.js library (r150) the game
  calls on vectors, boxes and the clock are written out from the library's source.
\<close>

record vec3 =
  vx :: real
  vy :: real
  vz :: real

definition Vector3 :: "real \<Rightarrow> real \<Rightarrow> real \<Rightarrow> vec3" where
  "Vector3 a b c = \<lparr>vx = a, vy = b, vz = c\<rparr>"

definition sub :: "vec3 \<Rightarrow> vec3 \<Rightarrow> vec3" where
  "sub a b = Vector3 (vx a - vx b) (vy a - vy b) (vz a - vz b)"

definition add :: "vec3 \<Rightarrow> vec3 \<Rightarrow> vec3" where
  "add a b = Vector3 (vx a + vx b) (vy a + vy b) (vz a + vz b)"

definition multiplyScalar :: "vec3 \<Rightarrow> real \<Rightarrow> vec3" where
  "multiplyScalar a s = Vector3 (vx a * s) (vy a * s) (vz a * s)"

definition addScaledVector :: "vec3 \<Rightarrow> vec3 \<Rightarrow> real \<Rightarrow> vec3" where
  "addScaledVector a v s = Vector3 (vx a + vx v * s) (vy a + vy v * s) (vz a + vz v * s)"

definition dot :: "vec3 \<Rightarrow> vec3 \<Rightarrow> real" where
  "dot a b = vx a * vx b + vy a * vy b + vz a * vz b"

definition lengthSq :: "vec3 \<Rightarrow> real" where
  "lengthSq a = vx a * vx a + vy a * vy a + vz a * vz a"

definition length3 :: "vec3 \<Rightarrow> real" where
  "length3 a = sqrt (vx a * vx a + vy a * vy a + vz a * vz a)"

definition distanceToSquared :: "vec3 \<Rightarrow> vec3 \<Rightarrow> real" where
  "distanceToSquared a v =
     (let dx = vx a - vx v; dy = vy a - vy v; dz = vz a - vz v
      in dx * dx + dy * dy + dz * dz)"

definition distanceTo :: "vec3 \<Rightarrow> vec3 \<Rightarrow> real" where
  "distanceTo a v = sqrt (distanceToSquared a v)"

text \<open>\<^verbatim>\<open>normalize()\<close> is \<^verbatim>\<open>divideScalar(this.length() || 1)\<close>: the zero vector stays zero.\<close>

definition normalize :: "vec3 \<Rightarrow> vec3" where
  "normalize a =
     (let l = length3 a; d = (if l = 0 then 1 else l)
      in multiplyScalar a (1 / d))"

definition setY :: "vec3 \<Rightarrow> real \<Rightarrow> vec3" where
  "setY a b = a\<lparr>vy := b\<rparr>"

record quaternion =
  qx :: real
  qy :: real
  qz :: real
  qw :: real

definition applyQuaternion :: "vec3 \<Rightarrow> quaternion \<Rightarrow> vec3" where
  "applyQuaternion v q =
     (let ix = qw q * vx v + qy q * vz v - qz q * vy v;
          iy = qw q * vy v + qz q * vx v - qx q * vz v;
          iz = qw q * vz v + qx q * vy v - qy q * vx v;
          iw = - qx q * vx v - qy q * vy v - qz q * vz v
      in Vector3 (ix * qw q + iw * - qx q + iy * - qz q - iz * - qy q)
                 (iy * qw q + iw * - qy q + iz * - qx q - ix * - qz q)
                 (iz * qw q + iw * - qz q + ix * - qy q - iy * - qx q))"

record box3 =
  bmin :: vec3
  bmax :: vec3

definition Box3 :: "vec3 \<Rightarrow> vec3 \<Rightarrow> box3" where
  "Box3 lo hi = \<lparr>bmin = lo, bmax = hi\<rparr>"

text \<open>\<^verbatim>\<open>this.intersectsBox(box)\<close>: six separating planes; boxes that only touch intersect.\<close>

definition intersectsBox :: "box3 \<Rightarrow> box3 \<Rightarrow> bool" where
  "intersectsBox this box =
     (if vx (bmax box) < vx (bmin this) \<or> vx (bmin box) > vx (bmax this) \<or>
         vy (bmax box) < vy (bmin this) \<or> vy (bmin box) > vy (bmax this) \<or>
         vz (bmax box) < vz (bmin this) \<or> vz (bmin box) > vz (bmax this)
      then False else True)"

definition lerp :: "real \<Rightarrow> real \<Rightarrow> real \<Rightarrow> real" where
  "lerp a b t = (1 - t) * a + t * b"

text \<open>\<^verbatim>\<open>Math.round\<close> rounds halves up.\<close>

definition Math_round :: "real \<Rightarrow> real" where
  "Math_round a = of_int \<lfloor>a + 1 / 2\<rfloor>"

record clock =
  autoStart :: bool
  running :: bool
  startTime :: real
  oldTime :: real
  elapsedTime :: real

text \<open>The clock's methods take the current time \<^verbatim>\<open>now()\<close> as an argument.\<close>

definition clock_start :: "real \<Rightarrow> clock \<Rightarrow> clock" where
  "clock_start now c = c\<lparr>startTime := now, oldTime := now, elapsedTime := 0, running := True\<rparr>"

definition getDelta :: "real \<Rightarrow> clock \<Rightarrow> real \<times> clock" where
  "getDelta now c =
     (if autoStart c \<and> \<not> running c then (0, clock_start now c)
      else if running c then
        (let diff = (now - oldTime c) / 1000
         in (diff, c\<lparr>oldTime := now, elapsedTime := elapsedTime c + diff\<rparr>))
      else (0, c))"

definition clock_stop :: "real \<Rightarrow> clock \<Rightarrow> clock" where
  "clock_stop now c = (snd (getDelta now c))\<lparr>running := False, autoStart := False\<rparr>"

section \<open>Game state\<close>

text \<open>
  The objects of the classes Player, Enemy, Bullet, Turret, Molotov and the pickups are
  records holding the fields \<^verbatim>\<open>Game.js\<close> reads and writes. An object's identity is its
  \<open>eid\<close> field where the game looks an object up in an array.
\<close>

record body =
  position :: vec3
  velocity :: vec3
  mass :: real
  radius :: real

record enemy = body +
  eid :: nat
  health :: real
  isAttacking :: bool
  attackAction :: "real option"
  lastAttackCycleTime :: real
  hasDamaged :: bool

record bullet = body +
  damage :: "real option"

record player =
  mesh_loaded :: bool
  mesh_position :: vec3
  mesh_quaternion :: quaternion
  mana :: real
  maxMana :: real
  player_health :: real

record turret =
  object_position :: vec3
  active :: bool
  cooldown :: real

record pickup =
  pickup_position :: vec3
  pickup_age :: real

record molotov =
  molotov_position :: vec3
  molotov_age :: real

text \<open>A cloned prop (rock or fence) with the transform the placement gave it.\<close>

record clone =
  clone_scale :: real
  clone_rotation_y :: real
  clone_position :: vec3

text \<open>The ghost of a turret drag: its position on the ground and its tint.\<close>

record ghost =
  ghost_position :: vec3
  ghost_color :: nat

text \<open>
  The path finder keeps the grid dimensions and the boxes handed to \<^verbatim>\<open>addCollider\<close>,
  in the order of the calls.
\<close>

record gridPathFinder =
  grid_cols :: nat
  grid_rows :: nat
  grid_cellSize :: real
  baked :: "box3 list"

record camera =
  cameraAngle :: real
  cameraFollow :: bool
  cameraVel :: vec3
  camera_position :: vec3
  fixedCameraCenter :: vec3
  cameraDistance :: real
  cameraHeight :: real

text \<open>Floating messages of the user interface, by what they say.\<close>

datatype message =
  MsgPaused
  | MsgCantPlaceTurret vec3
  | MsgTurretTokens int
  | MsgHeal

record game =
  paused :: bool
  isGameOver :: bool
  clock :: clock
  staticColliders :: "box3 list"
  scene :: "clone list"
  pathfinder :: "gridPathFinder option"
  player :: player
  spawner_paused :: bool
  enemies :: "enemy list"
  bullets :: "bullet list"
  pickups :: "pickup list"
  turrets :: "turret list"
  molotovs :: "molotov list"
  activePotion :: "real option"
  turretTokens :: int
  molotovTokens :: int
  draggingTurret :: "ghost option"
  cam :: camera
  keyQ :: bool
  keyE :: bool
  dimmed :: bool
  messages :: "message list"
  renderCount :: nat
  frameRequests :: nat

definition playerSpawnPos :: vec3 where
  "playerSpawnPos = Vector3 0 0 0"

definition reservedRadius :: real where
  "reservedRadius = 60"

definition reservedRadiusSq :: real where
  "reservedRadiusSq = reservedRadius ^ 2"

section \<open>Turret placement\<close>

definition TURRET_RADIUS :: real where
  "TURRET_RADIUS = 1.6"

text \<open>The \<^verbatim>\<open>for (const t of this.turrets)\<close> loop of \<^verbatim>\<open>isTurretPlacementValid\<close>.\<close>

fun turretsLoop :: "real \<Rightarrow> vec3 \<Rightarrow> turret list \<Rightarrow> bool" where
  "turretsLoop r pos [] = True"
| "turretsLoop r pos (t # ts) =
     (if distanceToSquared (object_position t) pos < (r * 2) ^ 2 then False
      else turretsLoop r pos ts)"

definition isTurretPlacementValid :: "game \<Rightarrow> vec3 \<Rightarrow> bool" where
  "isTurretPlacementValid g pos =
     (let r = TURRET_RADIUS;
          bb = Box3 (Vector3 (vx pos - r) (- 1) (vz pos - r))
                    (Vector3 (vx pos + r) 3 (vz pos + r))
      in if list_ex (\<lambda>box. intersectsBox box bb) (staticColliders g) then False
         else turretsLoop r pos (turrets g))"

section \<open>The classes beside the game\<close>

text \<open>
  \<^verbatim>\<open>Game.js\<close> imports the classes Turret, Player, Enemy, EnemySpawner and GridPathFinder;
  their files are not among the sources. What the properties below need of them is
  modelled from the spec, one definition for each method.
\<close>

text \<open>
  Modelled from the spec: the constructor of Turret (\<^verbatim>\<open>Turret.js\<close> is missing). A turret
  has a position, validated at creation, a fire-cooldown timer and an active flag; it is
  created at the position it is given.
\<close>

definition Turret_new :: "vec3 \<Rightarrow> turret" where
  "Turret_new pos = \<lparr>object_position = pos, active = True, cooldown = 0\<rparr>"

text \<open>
  Modelled from the spec: \<^verbatim>\<open>Player.spendMana(cost)\<close> (\<^verbatim>\<open>Player.js\<close> is missing). A commit
  with insufficient resources is rejected with no state mutation; otherwise the cost is
  spent. The result says whether the cost was paid.
\<close>

definition spendMana :: "real \<Rightarrow> player \<Rightarrow> bool \<times> player" where
  "spendMana cost p =
     (if mana p < cost then (False, p) else (True, p\<lparr>mana := mana p - cost\<rparr>))"

text \<open>
  Modelled from the spec: \<^verbatim>\<open>Enemy.takeDamage(amount)\<close> (\<^verbatim>\<open>Enemy.js\<close> is missing). It returns
  whether the target's health reached zero; health is clamped at zero, never negative.
\<close>

definition takeDamage :: "real \<Rightarrow> enemy \<Rightarrow> bool \<times> enemy" where
  "takeDamage amount e =
     (let h = max 0 (health e - amount) in (h \<le> 0, e\<lparr>health := h\<rparr>))"

text \<open>
  Modelled from the spec: \<^verbatim>\<open>EnemySpawner.removeEnemy(enemy)\<close> (\<^verbatim>\<open>EnemySpawner.js\<close> is
  missing). An agent whose health reaches zero is removed from the live collection at
  once, in place: the array loses the element that is this enemy object.
\<close>

fun removeEnemy :: "enemy \<Rightarrow> enemy list \<Rightarrow> enemy list" where
  "removeEnemy e [] = []"
| "removeEnemy e (a # as) = (if eid a = eid e then as else a # removeEnemy e as)"

text \<open>
  Modelled from the spec: the constructor of GridPathFinder and \<^verbatim>\<open>addCollider(box)\<close>
  (\<^verbatim>\<open>GridPathFinder.js\<close> is missing). The grid has fixed dimensions and cell size and bakes
  the boxes it is given; the model keeps the list of the boxes baked and not the cells.
\<close>

definition GridPathFinder_new :: "nat \<Rightarrow> nat \<Rightarrow> real \<Rightarrow> gridPathFinder" where
  "GridPathFinder_new cols rows cellSize =
     \<lparr>grid_cols = cols, grid_rows = rows, grid_cellSize = cellSize, baked = []\<rparr>"

text \<open>
  Modelled from the spec: \<^verbatim>\<open>GridPathFinder.addCollider(box)\<close>, the bake of one box.
\<close>

definition addCollider :: "box3 \<Rightarrow> gridPathFinder \<Rightarrow> gridPathFinder" where
  "addCollider box pf = pf\<lparr>baked := baked pf @ [box]\<rparr>"

text \<open>
  The other methods of those classes are parameters of the model: \<open>ext\<close> holds one
  function for each method \<^verbatim>\<open>Game.js\<close> calls, and the world boxes that
  \<^verbatim>\<open>Box3.setFromObject\<close> measures on a clone of the rock and of the fence template.
\<close>

record ext =
  setFromObject_rock :: "clone \<Rightarrow> box3"
  setFromObject_fence :: "clone \<Rightarrow> box3"
  Player_update :: "real \<Rightarrow> game \<Rightarrow> game"
  EnemySpawner_update :: "real \<Rightarrow> game \<Rightarrow> game"
  Enemy_update :: "real \<Rightarrow> game \<Rightarrow> enemy \<Rightarrow> enemy"
  Player_takeDamage :: "real \<Rightarrow> player \<Rightarrow> player"
  Bullet_update :: "real \<Rightarrow> bullet \<Rightarrow> bullet"
  Heart_update :: "real \<Rightarrow> player \<Rightarrow> pickup \<Rightarrow> bool \<times> pickup \<times> player"
  Turret_update :: "real \<Rightarrow> enemy list \<Rightarrow> turret \<Rightarrow> turret \<times> bullet list"
  Molotov_update :: "real \<Rightarrow> enemy list \<Rightarrow> molotov \<Rightarrow> bool \<times> molotov \<times> enemy list"
  Potion_update :: "real \<Rightarrow> real \<Rightarrow> bool \<times> real"
  Player_regenMana :: "real \<Rightarrow> player \<Rightarrow> player"

section \<open>The turret drag\<close>

text \<open>
  The \<^verbatim>\<open>pointermove\<close> listener of the turret drag. \<open>rayHit\<close> is where the ray
  through the pointer meets the ground plane, if it does. The cursor icon that follows
  the pointer is not modelled; \<^verbatim>\<open>draggingTurret.rangeRing\<close> is never set, so its branch
  never runs.
\<close>

definition color_ok :: nat where
  "color_ok = 65280"

definition color_blocked :: nat where
  "color_blocked = 16724787"

definition pointermove :: "vec3 option \<Rightarrow> game \<Rightarrow> game" where
  "pointermove rayHit g =
     (case draggingTurret g of
        None \<Rightarrow> g
      | Some d \<Rightarrow>
          (case rayHit of
             None \<Rightarrow> g
           | Some h \<Rightarrow>
               (let grid = 2;
                    hit = Vector3 (Math_round (vx h / grid) * grid) 0
                                  (Math_round (vz h / grid) * grid);
                    ok = isTurretPlacementValid g hit
                in g\<lparr>draggingTurret :=
                       Some \<lparr>ghost_position = hit,
                             ghost_color = (if ok then color_ok else color_blocked)\<rparr>\<rparr>)))"

definition showFloatingMessage :: "message \<Rightarrow> game \<Rightarrow> game" where
  "showFloatingMessage m g = g\<lparr>messages := messages g @ [m]\<rparr>"

definition addTurretToken :: "int \<Rightarrow> game \<Rightarrow> game" where
  "addTurretToken count g =
     showFloatingMessage (MsgTurretTokens count) (g\<lparr>turretTokens := turretTokens g + count\<rparr>)"

text \<open>
  The \<^verbatim>\<open>pointerup\<close> listener of the turret drag: the commit. \<^verbatim>\<open>!isNaN(pos.x)\<close> is true
  of every real number. The clean-up at its end removes the ghost and the cursor icon and
  ends the drag.
\<close>

definition pointerup :: "game \<Rightarrow> game" where
  "pointerup g =
     (case draggingTurret g of
        None \<Rightarrow> g
      | Some d \<Rightarrow>
          (let pos = ghost_position d;
               ok = isTurretPlacementValid g pos;
               turretCost = 50;
               g1 = (if ok then
                       (case spendMana turretCost (player g) of
                          (paid, p) \<Rightarrow>
                            if paid then
                              addTurretToken (- 1)
                                (g\<lparr>player := p, turrets := turrets g @ [Turret_new pos]\<rparr>)
                            else g\<lparr>player := p\<rparr>)
                     else showFloatingMessage (MsgCantPlaceTurret pos) g)
           in g1\<lparr>draggingTurret := None\<rparr>))"

definition initPathfinding :: "game \<Rightarrow> game" where
  "initPathfinding g =
     (let mapCells = 250; cellSize = 2
      in g\<lparr>pathfinder :=
            Some (foldl (\<lambda>pf box. addCollider box pf)
                        (GridPathFinder_new mapCells mapCells cellSize)
                        (staticColliders g))\<rparr>)"

definition togglePause :: "real \<Rightarrow> game \<Rightarrow> game" where
  "togglePause now g =
     (let g1 = g\<lparr>paused := \<not> paused g\<rparr>
      in if paused g1 then
           showFloatingMessage MsgPaused
             (g1\<lparr>clock := clock_stop now (clock g1),
                  spawner_paused := True,
                  turrets := map (\<lambda>t. t\<lparr>active := False\<rparr>) (turrets g1),
                  dimmed := True\<rparr>)
         else
           g1\<lparr>clock := clock_start now (clock g1),
                spawner_paused := False,
                turrets := map (\<lambda>t. t\<lparr>active := True\<rparr>) (turrets g1),
                dimmed := False\<rparr>)"

text \<open>\<^verbatim>\<open>onPlayerDeath\<close>: the spotlight and the fade to black are presentation.\<close>

definition onPlayerDeath :: "game \<Rightarrow> game" where
  "onPlayerDeath g =
     (if isGameOver g then g
      else g\<lparr>isGameOver := True,
              spawner_paused := True,
              turrets := map (\<lambda>t. t\<lparr>active := False\<rparr>) (turrets g),
              dimmed := True\<rparr>)"

section \<open>World build: scattered rocks and fences\<close>

text \<open>
  \<^verbatim>\<open>Math.random()\<close> is a sequence \<open>rnd\<close> of numbers and the index \<open>k\<close> of the next
  one to be drawn; every call draws one number and moves the index on.
\<close>

definition randFloatSpread :: "real \<Rightarrow> real \<Rightarrow> real" where
  "randFloatSpread spread u = spread * (0.5 - u)"

text \<open>
  One pass of the inner loop of \<^verbatim>\<open>loadStaticRocks\<close>: a clone with a random scale,
  heading and position, its world box, and the test. The result says whether the rock
  was placed.
\<close>

definition loadStaticRocks_attempt :: "ext \<Rightarrow> (nat \<Rightarrow> real) \<Rightarrow> nat \<Rightarrow> game \<Rightarrow> bool \<times> game" where
  "loadStaticRocks_attempt X rnd k g =
     (let minScale = 1; maxScale = 10; mapHalfSize = 250;
          t = rnd k ^ 3;
          s = lerp minScale maxScale t;
          rock = \<lparr>clone_scale = s,
                  clone_rotation_y = rnd (k + 1) * pi * 2,
                  clone_position =
                    Vector3 (randFloatSpread (mapHalfSize * 2) (rnd (k + 2))) 0
                            (randFloatSpread (mapHalfSize * 2) (rnd (k + 3)))\<rparr>;
          tmpBox = setFromObject_rock X rock;
          clearOfPlayer =
            (distanceToSquared (setY (clone_position rock) 0) playerSpawnPos > reservedRadiusSq);
          overlapsSomething =
            (\<not> clearOfPlayer \<or> list_ex (\<lambda>b. intersectsBox b tmpBox) (staticColliders g))
      in if \<not> overlapsSomething then
           (True, g\<lparr>scene := scene g @ [rock],
                     staticColliders := staticColliders g @ [tmpBox]\<rparr>)
         else (False, g))"

text \<open>
  The loops of \<^verbatim>\<open>loadStaticRocks\<close> and \<^verbatim>\<open>loadStaticFences\<close> are the same but for the
  body \<open>pass\<close> of the inner loop and the count \<open>draws\<close> of random numbers a pass draws.
  The inner loop is \<^verbatim>\<open>for (let attempt = 0; attempt < maxAttempts && !placed; attempt++)\<close>,
  after \<^verbatim>\<open>let placed = false\<close>.
\<close>

function attemptsLoop ::
  "(nat \<Rightarrow> game \<Rightarrow> bool \<times> game) \<Rightarrow> nat \<Rightarrow> nat \<Rightarrow> nat \<Rightarrow> bool \<Rightarrow> nat \<Rightarrow> game \<Rightarrow> nat \<times> game" where
  "attemptsLoop pass draws maxAttempts attempt placed k g =
     (if attempt < maxAttempts \<and> \<not> placed then
        attemptsLoop pass draws maxAttempts (attempt + 1) (fst (pass k g)) (k + draws)
          (snd (pass k g))
      else (k, g))"
  by pat_completeness auto
termination
  by (relation "measure (\<lambda>(pass, draws, maxAttempts, attempt, placed, k, g). maxAttempts - attempt)")
     auto

declare attemptsLoop.simps [simp del]

text \<open>The outer loop: \<^verbatim>\<open>for (let n = 0; n < count; n++)\<close>.\<close>

function instancesLoop ::
  "(nat \<Rightarrow> game \<Rightarrow> bool \<times> game) \<Rightarrow> nat \<Rightarrow> nat \<Rightarrow> nat \<Rightarrow> nat \<Rightarrow> nat \<Rightarrow> game \<Rightarrow> nat \<times> game" where
  "instancesLoop pass draws maxAttempts count n k g =
     (if n < count then
        (case attemptsLoop pass draws maxAttempts 0 False k g of
           (k', g') \<Rightarrow> instancesLoop pass draws maxAttempts count (n + 1) k' g')
      else (k, g))"
  by pat_completeness auto
termination
  by (relation "measure (\<lambda>(pass, draws, maxAttempts, count, n, k, g). count - n)") auto

declare instancesLoop.simps [simp del]

definition loadStaticRocks :: "ext \<Rightarrow> (nat \<Rightarrow> real) \<Rightarrow> nat \<Rightarrow> game \<Rightarrow> nat \<times> game" where
  "loadStaticRocks X rnd k g =
     (let rockCount = 15; maxAttempts = 40
      in instancesLoop (loadStaticRocks_attempt X rnd) 4 maxAttempts rockCount 0 k g)"

text \<open>The same for \<^verbatim>\<open>loadStaticFences\<close>: a fixed scale, three random numbers a pass.\<close>

definition loadStaticFences_attempt :: "ext \<Rightarrow> (nat \<Rightarrow> real) \<Rightarrow> nat \<Rightarrow> game \<Rightarrow> bool \<times> game" where
  "loadStaticFences_attempt X rnd k g =
     (let fenceScale = 8; mapHalfSize = 250;
          fence = \<lparr>clone_scale = fenceScale,
                   clone_rotation_y = rnd k * pi * 2,
                   clone_position =
                     Vector3 (randFloatSpread (mapHalfSize * 2) (rnd (k + 1))) 0
                             (randFloatSpread (mapHalfSize * 2) (rnd (k + 2)))\<rparr>;
          tmpBox = setFromObject_fence X fence;
          clearOfPlayer =
            (distanceToSquared (setY (clone_position fence) 0) playerSpawnPos > reservedRadiusSq);
          overlaps =
            (\<not> clearOfPlayer \<or> list_ex (\<lambda>b. intersectsBox b tmpBox) (staticColliders g))
      in if \<not> overlaps then
           (True, g\<lparr>scene := scene g @ [fence],
                     staticColliders := staticColliders g @ [tmpBox]\<rparr>)
         else (False, g))"

definition loadStaticFences :: "ext \<Rightarrow> (nat \<Rightarrow> real) \<Rightarrow> nat \<Rightarrow> game \<Rightarrow> nat \<times> game" where
  "loadStaticFences X rnd k g =
     (let fenceCount = 5; maxAttempts = 40
      in instancesLoop (loadStaticFences_attempt X rnd) 3 maxAttempts fenceCount 0 k g)"

text \<open>
  What the scatter loops keep: every clone of \<open>new\<close>, in the order placed, has a world
  box \<open>W c\<close> that meets none of the boxes \<open>cs\<close> registered before it, and stands outside
  the clearance radius around the player's spawn point.
\<close>

fun clearSeq :: "(clone \<Rightarrow> box3) \<Rightarrow> box3 list \<Rightarrow> clone list \<Rightarrow> bool" where
  "clearSeq W cs [] = True"
| "clearSeq W cs (c # rest) =
     (\<not> list_ex (\<lambda>b. intersectsBox b (W c)) cs \<and>
      reservedRadius < distanceTo (clone_position c) playerSpawnPos \<and>
      clearSeq W (cs @ [W c]) rest)"

section \<open>Combat\<close>

text \<open>\<^verbatim>\<open>array.splice(i, 1)\<close>\<close>

definition splice1 :: "nat \<Rightarrow> 'a list \<Rightarrow> 'a list" where
  "splice1 i xs = take i xs @ drop (Suc i) xs"

text \<open>
  The callback \<^verbatim>\<open>onKnifeHit\<close> hands to \<^verbatim>\<open>enemies.forEach\<close>, called on the element at
  index \<open>k\<close> of the array. The enemy object is changed in place, so the changed enemy
  is written back at its index.
\<close>

definition knifeRange :: real where
  "knifeRange = 10"

definition knifeCallback :: "real \<Rightarrow> vec3 \<Rightarrow> vec3 \<Rightarrow> nat \<Rightarrow> enemy list \<Rightarrow> enemy list" where
  "knifeCallback dmg forward playerPos k es =
     (let enemy = es ! k;
          toEnemy = sub (position enemy) playerPos;
          distance = length3 toEnemy
      in if distance < knifeRange then
           (let toEnemy = normalize toEnemy
            in if dot forward toEnemy > 0 then
                 (case takeDamage dmg enemy of
                    (enemyDead, enemy1) \<Rightarrow>
                      if enemyDead then removeEnemy enemy1 (es[k := enemy1])
                      else
                        (let knockback = dmg * 0.5;
                             knockbackDir = normalize (setY toEnemy 0)
                         in es[k := enemy1\<lparr>velocity :=
                                 add (velocity enemy1)
                                     (multiplyScalar knockbackDir (knockback / mass enemy1))\<rparr>]))
               else es)
         else es)"

text \<open>
  \<^verbatim>\<open>Array.prototype.forEach\<close>: the length is read once, the index runs forward from 0,
  and the callback is called for an index only while the array still has it.
\<close>

function forEach :: "(nat \<Rightarrow> 'a list \<Rightarrow> 'a list) \<Rightarrow> nat \<Rightarrow> nat \<Rightarrow> 'a list \<Rightarrow> 'a list" where
  "forEach f len k xs =
     (if k < len then forEach f len (k + 1) (if k < length xs then f k xs else xs)
      else xs)"
  by pat_completeness auto
termination
  by (relation "measure (\<lambda>(f, len, k, xs). len - k)") auto

declare forEach.simps [simp del]

definition onKnifeHit :: "real \<Rightarrow> game \<Rightarrow> game" where
  "onKnifeHit dmg g =
     (let forward = normalize (applyQuaternion (Vector3 0 0 1) (mesh_quaternion (player g)))
      in g\<lparr>enemies :=
            forEach (knifeCallback dmg forward (mesh_position (player g)))
                    (length (enemies g)) 0 (enemies g)\<rparr>)"

text \<open>
  The bullets of \<^verbatim>\<open>animate\<close>. The inner loop
  \<^verbatim>\<open>for (let j = enemies.length - 1; j >= 0; j--)\<close> takes \<open>j + 1\<close> as its counter and
  returns whether the bullet hit.
\<close>

fun bulletEnemies :: "bullet \<Rightarrow> nat \<Rightarrow> enemy list \<Rightarrow> bool \<times> enemy list" where
  "bulletEnemies bullet 0 es = (False, es)"
| "bulletEnemies bullet (Suc j) es =
     (let enemy = es ! j;
          collisionDistance = radius bullet + radius enemy;
          distance = distanceTo (position bullet) (position enemy)
      in if distance < collisionDistance then
           (let energy = 0.5 * mass bullet * lengthSq (velocity bullet);
                baseDmg = energy * 0.02;
                dmg = (case damage bullet of Some d \<Rightarrow> d | None \<Rightarrow> baseDmg)
            in case takeDamage dmg enemy of
                 (enemyDead, enemy1) \<Rightarrow>
                   (True, if enemyDead then removeEnemy enemy1 (es[j := enemy1])
                          else es[j := enemy1]))
         else bulletEnemies bullet j es)"

text \<open>\<^verbatim>\<open>for (let i = this.bullets.length - 1; i >= 0; i--)\<close>, with \<open>i + 1\<close> as counter.\<close>

fun bulletsLoop :: "ext \<Rightarrow> real \<Rightarrow> nat \<Rightarrow> bullet list \<Rightarrow> enemy list \<Rightarrow> bullet list \<times> enemy list" where
  "bulletsLoop X delta 0 bs es = (bs, es)"
| "bulletsLoop X delta (Suc i) bs es =
     (let bullet = Bullet_update X delta (bs ! i);
          bs1 = bs[i := bullet]
      in case bulletEnemies bullet (length es) es of
           (hit, es1) \<Rightarrow> bulletsLoop X delta i (if hit then splice1 i bs1 else bs1) es1)"

text \<open>The pickups: \<^verbatim>\<open>for (let i = this.pickups.length - 1; i >= 0; i--)\<close>.\<close>

fun pickupsLoop :: "ext \<Rightarrow> real \<Rightarrow> nat \<Rightarrow> game \<Rightarrow> game" where
  "pickupsLoop X delta 0 g = g"
| "pickupsLoop X delta (Suc i) g =
     (case Heart_update X delta (player g) (pickups g ! i) of
        (collected, heart, p) \<Rightarrow>
          (let g1 = g\<lparr>player := p, pickups := (pickups g)[i := heart]\<rparr>
           in pickupsLoop X delta i
                (if collected then
                   showFloatingMessage MsgHeal (g1\<lparr>pickups := splice1 i (pickups g1)\<rparr>)
                 else g1)))"

text \<open>The molotovs: \<^verbatim>\<open>for (let i = this.molotovs.length - 1; i >= 0; i--)\<close>.\<close>

fun molotovsLoop :: "ext \<Rightarrow> real \<Rightarrow> nat \<Rightarrow> molotov list \<Rightarrow> enemy list \<Rightarrow> molotov list \<times> enemy list" where
  "molotovsLoop X delta 0 ms es = (ms, es)"
| "molotovsLoop X delta (Suc i) ms es =
     (case Molotov_update X delta es (ms ! i) of
        (dead, m, es1) \<Rightarrow>
          (let ms1 = ms[i := m]
           in molotovsLoop X delta i (if dead then splice1 i ms1 else ms1) es1))"

text \<open>The turrets: \<^verbatim>\<open>for (const t of this.turrets) t.update(delta)\<close>; a turret may fire.\<close>

fun turretsUpdate :: "ext \<Rightarrow> real \<Rightarrow> enemy list \<Rightarrow> turret list \<Rightarrow> bullet list \<Rightarrow> turret list \<times> bullet list" where
  "turretsUpdate X delta es [] bs = ([], bs)"
| "turretsUpdate X delta es (t # ts) bs =
     (case Turret_update X delta es t of
        (t1, fired) \<Rightarrow>
          (case turretsUpdate X delta es ts (bs @ fired) of
             (ts1, bs1) \<Rightarrow> (t1 # ts1, bs1)))"

text \<open>
  The enemies of \<^verbatim>\<open>animate\<close>: one pass of
  \<^verbatim>\<open>for (let enemy of this.enemySpawner.enemies)\<close> on the enemy at index \<open>k\<close>.
\<close>

definition enemyStep :: "ext \<Rightarrow> real \<Rightarrow> nat \<Rightarrow> game \<Rightarrow> game" where
  "enemyStep X delta k g =
     (let enemy = Enemy_update X delta g (enemies g ! k)
      in case (isAttacking enemy, attackAction enemy) of
           (True, Some time) \<Rightarrow>
             (let enemy1 = (if time < lastAttackCycleTime enemy
                            then enemy\<lparr>hasDamaged := False\<rparr> else enemy);
                  enemy2 = enemy1\<lparr>lastAttackCycleTime := time\<rparr>;
                  attackRange = 5;
                  distance = distanceTo (position enemy2) (mesh_position (player g))
              in if distance < attackRange \<and> \<not> hasDamaged enemy2 then
                   g\<lparr>player := Player_takeDamage X 10 (player g),
                     enemies := (enemies g)[k := enemy2\<lparr>hasDamaged := True\<rparr>]\<rparr>
                 else g\<lparr>enemies := (enemies g)[k := enemy2]\<rparr>)
         | _ \<Rightarrow> g\<lparr>enemies := (enemies g)[k := enemy\<lparr>hasDamaged := False\<rparr>]\<rparr>)"

lemma length_enemyStep: "length (enemies (enemyStep X delta k g)) = length (enemies g)"
  by (simp add: enemyStep_def Let_def split: option.split bool.split prod.split)

function enemiesLoop :: "ext \<Rightarrow> real \<Rightarrow> nat \<Rightarrow> game \<Rightarrow> game" where
  "enemiesLoop X delta k g =
     (if k < length (enemies g) then enemiesLoop X delta (k + 1) (enemyStep X delta k g)
      else g)"
  by pat_completeness auto
termination
  by (relation "measure (\<lambda>(X, delta, k, g). length (enemies g) - k)")
     (auto simp: length_enemyStep)

declare enemiesLoop.simps [simp del]

section \<open>The frame\<close>

text \<open>The camera of \<^verbatim>\<open>animate\<close>; where the camera looks is presentation.\<close>

definition updateCamera :: "real \<Rightarrow> game \<Rightarrow> game" where
  "updateCamera delta g =
     (let rotationSpeed = 1;
          c0 = cam g;
          c1 = (if keyQ g then c0\<lparr>cameraAngle := cameraAngle c0 - delta * rotationSpeed\<rparr> else c0);
          c2 = (if keyE g then c1\<lparr>cameraAngle := cameraAngle c1 + delta * rotationSpeed\<rparr> else c1)
      in if cameraFollow c2 \<and> mesh_loaded (player g) then
           (let target = add (mesh_position (player g))
                           (Vector3 (cameraDistance c2 * cos (cameraAngle c2))
                                    (cameraHeight c2)
                                    (cameraDistance c2 * sin (cameraAngle c2)));
                k = 12;
                c = 8;
                camAcc = add (multiplyScalar (sub target (camera_position c2)) k)
                             (multiplyScalar (cameraVel c2) (- c));
                vel = addScaledVector (cameraVel c2) camAcc delta
            in g\<lparr>cam := c2\<lparr>cameraVel := vel,
                            camera_position := addScaledVector (camera_position c2) vel delta\<rparr>\<rparr>)
         else
           g\<lparr>cam := c2\<lparr>camera_position :=
                 Vector3 (vx (fixedCameraCenter c2) + cameraDistance c2 * cos (cameraAngle c2))
                         (vy (fixedCameraCenter c2) + cameraHeight c2)
                         (vz (fixedCameraCenter c2) + cameraDistance c2 * sin (cameraAngle c2))\<rparr>\<rparr>)"

definition render :: "game \<Rightarrow> game" where
  "render g = g\<lparr>renderCount := renderCount g + 1\<rparr>"

text \<open>
  \<^verbatim>\<open>animate\<close>, called with the time \<open>now\<close> of the frame. It first asks for the next
  frame. The sun light that follows the player, the bars of the interface and the
  minimap are presentation and are not modelled. \<^verbatim>\<open>animate\<close> is first called after
  \<^verbatim>\<open>initEnemySpawner\<close>, so the spawner and its array of enemies exist in every frame.
\<close>

definition animate :: "ext \<Rightarrow> real \<Rightarrow> game \<Rightarrow> game" where
  "animate X now g0 =
     (let gr = g0\<lparr>frameRequests := frameRequests g0 + 1\<rparr>;
          delta = fst (getDelta now (clock gr));
          g = gr\<lparr>clock := snd (getDelta now (clock gr))\<rparr>
      in if paused g then render g
         else if isGameOver g then render g
         else if \<not> mesh_loaded (player g) then g
         else
           (let g1 = Player_update X delta g;
                g2 = enemiesLoop X delta 0 (EnemySpawner_update X delta g1);
                g3 = (case bulletsLoop X delta (length (bullets g2)) (bullets g2) (enemies g2) of
                        (bs, es) \<Rightarrow> g2\<lparr>bullets := bs, enemies := es\<rparr>);
                g4 = pickupsLoop X delta (length (pickups g3)) g3;
                g5 = updateCamera delta g4;
                g6 = (case turretsUpdate X delta (enemies g5) (turrets g5) (bullets g5) of
                        (ts, bs) \<Rightarrow> g5\<lparr>turrets := ts, bullets := bs\<rparr>);
                g7 = (case molotovsLoop X delta (length (molotovs g6)) (molotovs g6) (enemies g6) of
                        (ms, es) \<Rightarrow> g6\<lparr>molotovs := ms, enemies := es\<rparr>);
                g8 = (case activePotion g7 of
                        None \<Rightarrow> g7
                      | Some potion \<Rightarrow>
                          (case Potion_update X delta potion of
                             (expired, potion1) \<Rightarrow>
                               g7\<lparr>activePotion := (if expired then None else Some potion1)\<rparr>));
                g9 = g8\<lparr>player := Player_regenMana X delta (player g8)\<rparr>
            in render g9))"

text \<open>A run of frames, one for each time in the list.\<close>

fun frames :: "ext \<Rightarrow> real list \<Rightarrow> game \<Rightarrow> game" where
  "frames X [] g = g"
| "frames X (now # nows) g = frames X nows (animate X now g)"

section \<open>The constructor and some concrete states\<close>

text \<open>
  The state the constructor leaves, before the static models are loaded, for a given
  Player object: \<^verbatim>\<open>initCamera\<close>, \<^verbatim>\<open>initRenderer\<close> and \<^verbatim>\<open>initGameState\<close>.
\<close>

definition Game_new :: "player \<Rightarrow> game" where
  "Game_new p =
     \<lparr>paused = False, isGameOver = False,
      clock = \<lparr>autoStart = True, running = False, startTime = 0, oldTime = 0, elapsedTime = 0\<rparr>,
      staticColliders = [], scene = [], pathfinder = None, player = p,
      spawner_paused = False, enemies = [], bullets = [], pickups = [], turrets = [],
      molotovs = [], activePotion = None, turretTokens = 1900, molotovTokens = 1000,
      draggingTurret = None,
      cam = \<lparr>cameraAngle = pi / 4, cameraFollow = False, cameraVel = Vector3 0 0 0,
             camera_position = Vector3 40 40 40, fixedCameraCenter = Vector3 0 0 0,
             cameraDistance = sqrt (40 * 40 + 40 * 40), cameraHeight = 40\<rparr>,
      keyQ = False, keyE = False, dimmed = False, messages = [],
      renderCount = 0, frameRequests = 0\<rparr>"

definition player0 :: player where
  "player0 = \<lparr>mesh_loaded = True, mesh_position = Vector3 0 0 0,
              mesh_quaternion = \<lparr>qx = 0, qy = 0, qz = 0, qw = 1\<rparr>,
              mana = 100, maxMana = 100, player_health = 100\<rparr>"

definition game0 :: game where
  "game0 = Game_new player0"

text \<open>A box far from the origin, and the ghost of a drag.\<close>

definition box_far :: box3 where
  "box_far = Box3 (Vector3 98 0 98) (Vector3 102 4 102)"

definition ghost_at :: "vec3 \<Rightarrow> ghost" where
  "ghost_at pos = \<lparr>ghost_position = pos, ghost_color = color_ok\<rparr>"

text \<open>Collaborators that do nothing, with unit boxes around a clone's position.\<close>

definition unitBox :: "clone \<Rightarrow> box3" where
  "unitBox c = Box3 (Vector3 (vx (clone_position c) - 1) 0 (vz (clone_position c) - 1))
                    (Vector3 (vx (clone_position c) + 1) 2 (vz (clone_position c) + 1))"

definition ext0 :: ext where
  "ext0 = \<lparr>setFromObject_rock = unitBox, setFromObject_fence = unitBox,
           Player_update = (\<lambda>delta g. g), EnemySpawner_update = (\<lambda>delta g. g),
           Enemy_update = (\<lambda>delta g e. e), Player_takeDamage = (\<lambda>amount p. p),
           Bullet_update = (\<lambda>delta b. b),
           Heart_update = (\<lambda>delta p h. (False, h, p)),
           Turret_update = (\<lambda>delta es t. (t, [])),
           Molotov_update = (\<lambda>delta es m. (False, m, es)),
           Potion_update = (\<lambda>delta t. (False, t)),
           Player_regenMana = (\<lambda>delta p. p)\<rparr>"

definition enemy_at :: "nat \<Rightarrow> vec3 \<Rightarrow> real \<Rightarrow> enemy" where
  "enemy_at i pos h =
     \<lparr>position = pos, velocity = Vector3 0 0 0, mass = 1, radius = 1, eid = i, health = h,
      isAttacking = False, attackAction = None, lastAttackCycleTime = 0, hasDamaged = False\<rparr>"

text \<open>A drag in progress, with one box of scenery and one turret already placed.\<close>

definition game_drag :: game where
  "game_drag = game0\<lparr>staticColliders := [box_far], turrets := [Turret_new (Vector3 10 0 0)],
                     draggingTurret := Some (ghost_at (Vector3 0 0 0))\<rparr>"

text \<open>
  The world build of the constructor: the barn, the farm, the trees and the vehicles push
  the boxes \<open>fixed\<close> measured on their loaded models, the rocks and the fences are
  scattered, and then the grid is baked (\<^verbatim>\<open>loadStaticModels().then(...)\<close>).
\<close>

definition loadStaticModels :: "ext \<Rightarrow> (nat \<Rightarrow> real) \<Rightarrow> box3 list \<Rightarrow> game \<Rightarrow> game" where
  "loadStaticModels X rnd fixed g =
     (case loadStaticRocks X rnd 0 (g\<lparr>staticColliders := staticColliders g @ fixed\<rparr>) of
        (k, g1) \<Rightarrow> snd (loadStaticFences X rnd k g1))"

definition worldBuild :: "ext \<Rightarrow> (nat \<Rightarrow> real) \<Rightarrow> box3 list \<Rightarrow> game \<Rightarrow> game" where
  "worldBuild X rnd fixed g = initPathfinding (loadStaticModels X rnd fixed g)"

text \<open>A drag that ends too close to the turret, and a drag by a player short of mana.\<close>

definition game_drag_blocked :: game where
  "game_drag_blocked = game_drag\<lparr>draggingTurret := Some (ghost_at (Vector3 8 0 0))\<rparr>"

definition game_drag_poor :: game where
  "game_drag_poor = game_drag\<lparr>player := player0\<lparr>mana := 10\<rparr>\<rparr>"

text \<open>The state \<open>g\<close> after the clones \<open>new\<close> were placed, each with its box \<open>W c\<close>.\<close>

definition placed :: "(clone \<Rightarrow> box3) \<Rightarrow> game \<Rightarrow> clone list \<Rightarrow> game" where
  "placed W g new = g\<lparr>scene := scene g @ new, staticColliders := staticColliders g @ map W new\<rparr>"

text \<open>A pass either changes nothing or places one clone that is clear.\<close>

definition goodPass :: "(clone \<Rightarrow> box3) \<Rightarrow> (nat \<Rightarrow> game \<Rightarrow> bool \<times> game) \<Rightarrow> bool" where
  "goodPass W pass \<longleftrightarrow>
     (\<forall>k g. pass k g = (False, g) \<or>
        (\<exists>c. pass k g = (True, placed W g [c]) \<and> clearSeq W (staticColliders g) [c]))"

text \<open>The first rock that the random numbers 0, 0, 0, ... place, and the state with it.\<close>

definition rock0 :: clone where
  "rock0 = \<lparr>clone_scale = 1, clone_rotation_y = 0, clone_position = Vector3 250 0 250\<rparr>"

definition game_rock :: game where
  "game_rock = game0\<lparr>scene := [rock0], staticColliders := [unitBox rock0]\<rparr>"


text \<open>An enemy below and ahead of the player, and enemies lined up ahead of the player.\<close>

definition enemy_low :: enemy where
  "enemy_low = (enemy_at 1 (Vector3 0 (- 3) 4) 100)\<lparr>mass := 2\<rparr>"

definition game_knife2 :: game where
  "game_knife2 = game0\<lparr>enemies := [enemy_at 1 (Vector3 0 0 3) 10, enemy_at 2 (Vector3 0 0 4) 100]\<rparr>"

definition game_knife3 :: game where
  "game_knife3 = game0\<lparr>enemies := [enemy_at 1 (Vector3 0 0 2) 10, enemy_at 2 (Vector3 0 0 3) 100,
                                     enemy_at 3 (Vector3 0 0 4) 100]\<rparr>"

text \<open>
  A reference for the back-to-front loops: the molotovs in the order visited (last
  first), each updated once and dropped when its update says it is dead, the enemies
  handed from one update to the next.
\<close>

fun visitBack ::
  "(enemy list \<Rightarrow> molotov \<Rightarrow> bool \<times> molotov \<times> enemy list) \<Rightarrow> molotov list \<Rightarrow> enemy list
     \<Rightarrow> molotov list \<times> enemy list" where
  "visitBack f [] es = ([], es)"
| "visitBack f (m # rest) es =
     (case f es m of
        (dead, m1, es1) \<Rightarrow>
          (case visitBack f rest es1 of
             (kept, es2) \<Rightarrow> (if dead then kept else kept @ [m1], es2)))"

text \<open>
  A drag that starts while a turret stands on the origin: the ghost is created there, in
  the tint of a free spot.
\<close>

definition game_drag_stale :: game where
  "game_drag_stale = game_drag\<lparr>turrets := [Turret_new (Vector3 0 0 0)]\<rparr>"

section \<open>Properties\<close>

lemmas vec_defs = Vector3_def Box3_def sub_def add_def multiplyScalar_def dot_def lengthSq_def
  length3_def distanceToSquared_def setY_def intersectsBox_def

lemma distanceToSquared_nonneg: "0 \<le> distanceToSquared a b"
  by (simp add: distanceToSquared_def Let_def)

lemma distanceTo_ge_iff:
  assumes "0 \<le> c"
  shows "c \<le> distanceTo a b \<longleftrightarrow> c ^ 2 \<le> distanceToSquared a b"
proof -
  have "sqrt (c ^ 2) = c"
    using assms by simp
  then show ?thesis
    unfolding distanceTo_def by (metis real_sqrt_le_iff)
qed

lemma distanceTo_gt_iff:
  assumes "0 \<le> c"
  shows "c < distanceTo a b \<longleftrightarrow> c ^ 2 < distanceToSquared a b"
proof -
  have "sqrt (c ^ 2) = c"
    using assms by simp
  then show ?thesis
    unfolding distanceTo_def by (metis real_sqrt_less_iff)
qed

subsection \<open>The placement predicate of the turret drag\<close>

lemma turretsLoop_iff:
  assumes "0 \<le> r"
  shows "turretsLoop r pos ts \<longleftrightarrow> (\<forall>t\<in>set ts. 2 * r \<le> distanceTo (object_position t) pos)"
proof (induction ts)
  case Nil
  show ?case by simp
next
  case (Cons t ts)
  have "0 \<le> 2 * r"
    using assms by simp
  from distanceTo_ge_iff [OF this, of "object_position t" pos]
  have "(2 * r \<le> distanceTo (object_position t) pos)
        = (\<not> distanceToSquared (object_position t) pos < (r * 2) ^ 2)"
    by (simp add: not_less mult.commute)
  with Cons show ?case
    by simp
qed

text \<open>
  Claim C5, amended. \<^verbatim>\<open>isTurretPlacementValid(pos)\<close> is true exactly when the flat box
  around \<open>pos\<close>, of half-width \<open>TURRET_RADIUS\<close> and from height -1 to 3, intersects no box
  of \<open>staticColliders\<close> and every turret stands at least \<open>2 * TURRET_RADIUS\<close> away from
  \<open>pos\<close>. The predicate is a function of the state and changes nothing. During a drag, a
  pointer move whose ray meets the ground snaps the hit to the grid of 2, puts the ghost
  there and tints it by the predicate at that spot, and changes nothing else. A pointer
  move whose ray misses the ground, and a pointer move outside a drag, evaluate nothing
  and leave the state as it was.
\<close>

theorem isTurretPlacementValid_iff:
  "(isTurretPlacementValid g pos \<longleftrightarrow>
      (\<forall>box \<in> set (staticColliders g).
         \<not> intersectsBox box
             (Box3 (Vector3 (vx pos - TURRET_RADIUS) (- 1) (vz pos - TURRET_RADIUS))
                   (Vector3 (vx pos + TURRET_RADIUS) 3 (vz pos + TURRET_RADIUS)))) \<and>
      (\<forall>t \<in> set (turrets g). 2 * TURRET_RADIUS \<le> distanceTo (object_position t) pos))
   \<and> (draggingTurret g = Some d \<longrightarrow>
        pointermove (Some h) g =
          g\<lparr>draggingTurret := Some
              \<lparr>ghost_position = Vector3 (Math_round (vx h / 2) * 2) 0 (Math_round (vz h / 2) * 2),
               ghost_color =
                 (if isTurretPlacementValid g
                       (Vector3 (Math_round (vx h / 2) * 2) 0 (Math_round (vz h / 2) * 2))
                  then color_ok else color_blocked)\<rparr>\<rparr>)
   \<and> pointermove None g = g
   \<and> (draggingTurret g = None \<longrightarrow> pointermove (Some h) g = g)"
proof -
  have r: "0 \<le> TURRET_RADIUS"
    by (simp add: TURRET_RADIUS_def)
  show ?thesis
    by (simp add: isTurretPlacementValid_def pointermove_def Let_def turretsLoop_iff [OF r]
        list_ex_iff split: option.split)
qed

text \<open>
  Claim C5 as stated fails where the ray misses the ground: the listener tests
  \<^verbatim>\<open>ray.ray.intersectPlane(ground, hit)\<close> before it calls the predicate. Here a drag is in
  progress, the ghost stands on the origin in the tint of a free spot, the predicate
  refuses the origin, and a pointer move with a miss leaves everything as it was.
\<close>

theorem pointermove_miss_keeps_stale_tint:
  "draggingTurret game_drag_stale = Some \<lparr>ghost_position = Vector3 0 0 0, ghost_color = color_ok\<rparr> \<and>
   \<not> isTurretPlacementValid game_drag_stale (Vector3 0 0 0) \<and>
   pointermove None game_drag_stale = game_drag_stale"
  by (simp add: game_drag_stale_def game_drag_def ghost_at_def pointermove_def
      isTurretPlacementValid_def game0_def Game_new_def Turret_new_def box_far_def vec_defs
      TURRET_RADIUS_def Let_def power2_eq_square)

lemma pointermove_idle:
  "draggingTurret g = None \<or> rayHit = None \<Longrightarrow> pointermove rayHit g = g"
  by (auto simp: pointermove_def split: option.split)

theorem isTurretPlacementValid_iff_witness:
  "isTurretPlacementValid game_drag (Vector3 0 0 0) \<and>
   \<not> isTurretPlacementValid game_drag (Vector3 100 0 100) \<and>
   \<not> isTurretPlacementValid game_drag (Vector3 8 0 0) \<and>
   pointermove (Some (Vector3 3.2 5 7.9)) game_drag =
     game_drag\<lparr>draggingTurret := Some \<lparr>ghost_position = Vector3 4 0 8, ghost_color = color_ok\<rparr>\<rparr>"
proof -
  have r: "(0::real) \<le> 2 * TURRET_RADIUS"
    by (simp add: TURRET_RADIUS_def)
  have d: "draggingTurret game_drag = Some (ghost_at (Vector3 0 0 0))"
    by (simp add: game_drag_def)
  have s: "Vector3 (Math_round (vx (Vector3 3.2 5 7.9) / 2) * 2) 0
                   (Math_round (vz (Vector3 3.2 5 7.9) / 2) * 2) = Vector3 4 0 8"
    by (simp add: Vector3_def Math_round_def)
  have a: "isTurretPlacementValid game_drag (Vector3 0 0 0)"
    unfolding isTurretPlacementValid_iff [THEN conjunct1]
    by (simp add: game_drag_def game0_def Game_new_def Turret_new_def distanceTo_ge_iff [OF r])
       (simp add: box_far_def vec_defs TURRET_RADIUS_def Let_def power2_eq_square)
  have b: "\<not> isTurretPlacementValid game_drag (Vector3 100 0 100)"
    unfolding isTurretPlacementValid_iff [THEN conjunct1]
    by (simp add: game_drag_def game0_def Game_new_def box_far_def Turret_new_def
        vec_defs TURRET_RADIUS_def Let_def)
  have c: "\<not> isTurretPlacementValid game_drag (Vector3 8 0 0)"
    unfolding isTurretPlacementValid_iff [THEN conjunct1]
    by (simp add: game_drag_def game0_def Game_new_def Turret_new_def distanceTo_ge_iff [OF r])
       (simp add: box_far_def vec_defs TURRET_RADIUS_def Let_def power2_eq_square)
  have e: "isTurretPlacementValid game_drag (Vector3 4 0 8)"
    unfolding isTurretPlacementValid_iff [THEN conjunct1]
    by (simp add: game_drag_def game0_def Game_new_def Turret_new_def distanceTo_ge_iff [OF r])
       (simp add: box_far_def vec_defs TURRET_RADIUS_def Let_def power2_eq_square)
  from isTurretPlacementValid_iff [THEN conjunct2, THEN conjunct1, rule_format, OF d,
      of "Vector3 3.2 5 7.9"]
  have "pointermove (Some (Vector3 3.2 5 7.9)) game_drag =
     game_drag\<lparr>draggingTurret := Some \<lparr>ghost_position = Vector3 4 0 8, ghost_color = color_ok\<rparr>\<rparr>"
    unfolding s using e by simp
  with a b c show ?thesis
    by simp
qed

subsection \<open>The commit of a turret drag\<close>

text \<open>
  Claim C7. A commit (\<^verbatim>\<open>pointerup\<close> during a drag) at a spot the predicate refuses,
  or by a player with less than the 50 mana a turret costs, is rejected: no turret is
  added, \<open>turretTokens\<close> and the player (so the mana) are as before. For a refused spot
  \<^verbatim>\<open>spendMana\<close> is not called, whatever the mana. The state after the handler is the state
  before it with the drag ended and, for a refused spot, the message shown.
\<close>

theorem pointerup_rejected:
  assumes "draggingTurret g = Some d"
    and "\<not> isTurretPlacementValid g (ghost_position d) \<or> mana (player g) < 50"
  shows "turrets (pointerup g) = turrets g \<and>
         turretTokens (pointerup g) = turretTokens g \<and>
         player (pointerup g) = player g \<and>
         pointerup g =
           (if isTurretPlacementValid g (ghost_position d) then g\<lparr>draggingTurret := None\<rparr>
            else (showFloatingMessage (MsgCantPlaceTurret (ghost_position d)) g)
                   \<lparr>draggingTurret := None\<rparr>)"
  using assms
  by (auto simp: pointerup_def Let_def spendMana_def showFloatingMessage_def)

theorem pointerup_rejected_witness:
  "pointerup game_drag_blocked =
     game_drag_blocked\<lparr>draggingTurret := None,
                        messages := [MsgCantPlaceTurret (Vector3 8 0 0)]\<rparr> \<and>
   pointerup game_drag_poor = game_drag_poor\<lparr>draggingTurret := None\<rparr>"
proof -
  have r: "(0::real) \<le> 2 * TURRET_RADIUS"
    by (simp add: TURRET_RADIUS_def)
  have d1: "draggingTurret game_drag_blocked = Some (ghost_at (Vector3 8 0 0))"
    by (simp add: game_drag_blocked_def)
  have d2: "draggingTurret game_drag_poor = Some (ghost_at (Vector3 0 0 0))"
    by (simp add: game_drag_poor_def game_drag_def)
  have v1: "\<not> isTurretPlacementValid game_drag_blocked (Vector3 8 0 0)"
    by (simp add: isTurretPlacementValid_def game_drag_blocked_def game_drag_def game0_def
        Game_new_def Turret_new_def box_far_def vec_defs TURRET_RADIUS_def Let_def
        power2_eq_square)
  have v2: "mana (player game_drag_poor) < 50"
    by (simp add: game_drag_poor_def)
  have v3: "isTurretPlacementValid game_drag_poor (Vector3 0 0 0)"
    by (simp add: isTurretPlacementValid_def game_drag_poor_def game_drag_def game0_def
        Game_new_def Turret_new_def box_far_def vec_defs TURRET_RADIUS_def Let_def
        power2_eq_square)
  have m: "messages game_drag_blocked = []"
    by (simp add: game_drag_blocked_def game_drag_def game0_def Game_new_def)
  from pointerup_rejected [OF d1] v1
  have a: "pointerup game_drag_blocked =
     game_drag_blocked\<lparr>draggingTurret := None,
                        messages := [MsgCantPlaceTurret (Vector3 8 0 0)]\<rparr>"
    by (simp add: ghost_at_def showFloatingMessage_def m)
  from pointerup_rejected [OF d2] v2 v3
  have b: "pointerup game_drag_poor = game_drag_poor\<lparr>draggingTurret := None\<rparr>"
    by (simp add: ghost_at_def)
  from a b show ?thesis
    by simp
qed

lemma foldl_addCollider: "baked (foldl (\<lambda>pf box. addCollider box pf) pf bs) = baked pf @ bs"
  by (induction bs arbitrary: pf) (simp_all add: addCollider_def)

lemma foldl_addCollider_grid:
  "grid_cols (foldl (\<lambda>pf box. addCollider box pf) pf bs) = grid_cols pf \<and>
   grid_rows (foldl (\<lambda>pf box. addCollider box pf) pf bs) = grid_rows pf \<and>
   grid_cellSize (foldl (\<lambda>pf box. addCollider box pf) pf bs) = grid_cellSize pf"
  by (induction bs arbitrary: pf) (simp_all add: addCollider_def)

lemma turretsLoop_append:
  "turretsLoop r pos (ts @ us) \<longleftrightarrow> turretsLoop r pos ts \<and> turretsLoop r pos us"
  by (induction ts) auto

text \<open>
  Claim C10. A commit never changes \<open>staticColliders\<close> or the path finder: it adds at
  most the new turret to \<open>turrets\<close>. \<^verbatim>\<open>initPathfinding\<close> changes the path finder alone,
  to a grid of 250 by 250 cells of size 2 that has baked the boxes of \<open>staticColliders\<close>,
  each once and in their order; the world build ends with it, on the colliders the load
  of the static models left. Of the listeners and handlers of \<^verbatim>\<open>Game.js\<close>, the pointer
  move, the pause, the player's death and the knife hit leave \<open>staticColliders\<close> and the
  path finder as they were. A placed turret constrains later placements by the distance
  test alone.
\<close>

theorem pointerup_keeps_static_world:
  "staticColliders (pointerup g) = staticColliders g \<and>
   pathfinder (pointerup g) = pathfinder g \<and>
   (turrets (pointerup g) = turrets g \<or>
    (\<exists>d. draggingTurret g = Some d \<and>
         turrets (pointerup g) = turrets g @ [Turret_new (ghost_position d)])) \<and>
   initPathfinding g =
     g\<lparr>pathfinder := Some \<lparr>grid_cols = 250, grid_rows = 250, grid_cellSize = 2,
                            baked = staticColliders g\<rparr>\<rparr> \<and>
   worldBuild X rnd fixed g =
     (loadStaticModels X rnd fixed g)
       \<lparr>pathfinder := Some \<lparr>grid_cols = 250, grid_rows = 250, grid_cellSize = 2,
                            baked = staticColliders (loadStaticModels X rnd fixed g)\<rparr>\<rparr> \<and>
   (isTurretPlacementValid (g\<lparr>turrets := turrets g @ [Turret_new p]\<rparr>) q \<longleftrightarrow>
      isTurretPlacementValid g q \<and> 2 * TURRET_RADIUS \<le> distanceTo p q) \<and>
   staticColliders (pointermove rayHit g) = staticColliders g \<and>
   pathfinder (pointermove rayHit g) = pathfinder g \<and>
   staticColliders (togglePause now g) = staticColliders g \<and>
   pathfinder (togglePause now g) = pathfinder g \<and>
   staticColliders (onPlayerDeath g) = staticColliders g \<and>
   pathfinder (onPlayerDeath g) = pathfinder g \<and>
   staticColliders (onKnifeHit dmg g) = staticColliders g \<and>
   pathfinder (onKnifeHit dmg g) = pathfinder g"
proof -
  have r: "(0::real) \<le> TURRET_RADIUS"
    by (simp add: TURRET_RADIUS_def)
  have a: "staticColliders (pointerup g) = staticColliders g \<and>
           pathfinder (pointerup g) = pathfinder g"
    by (simp add: pointerup_def Let_def addTurretToken_def showFloatingMessage_def
        split: option.split prod.split)
  have b: "turrets (pointerup g) = turrets g \<or>
    (\<exists>d. draggingTurret g = Some d \<and>
         turrets (pointerup g) = turrets g @ [Turret_new (ghost_position d)])"
    by (simp add: pointerup_def Let_def addTurretToken_def showFloatingMessage_def
        split: option.split prod.split)
  have grid: "\<And>bs. foldl (\<lambda>pf box. addCollider box pf) (GridPathFinder_new 250 250 2) bs =
          \<lparr>grid_cols = 250, grid_rows = 250, grid_cellSize = 2, baked = bs\<rparr>"
  proof -
    fix bs
    have "\<And>pf. foldl (\<lambda>pf box. addCollider box pf) pf bs = pf\<lparr>baked := baked pf @ bs\<rparr>"
      by (induction bs) (simp_all add: addCollider_def)
    then show "foldl (\<lambda>pf box. addCollider box pf) (GridPathFinder_new 250 250 2) bs =
          \<lparr>grid_cols = 250, grid_rows = 250, grid_cellSize = 2, baked = bs\<rparr>"
      by (simp add: GridPathFinder_new_def)
  qed
  have c: "\<And>g. initPathfinding g =
     g\<lparr>pathfinder := Some \<lparr>grid_cols = 250, grid_rows = 250, grid_cellSize = 2,
                            baked = staticColliders g\<rparr>\<rparr>"
    by (simp add: initPathfinding_def Let_def grid)
  have d: "isTurretPlacementValid (g\<lparr>turrets := turrets g @ [Turret_new p]\<rparr>) q \<longleftrightarrow>
      isTurretPlacementValid g q \<and> 2 * TURRET_RADIUS \<le> distanceTo p q"
    using turretsLoop_iff [OF r, of q "[Turret_new p]"]
    by (auto simp: isTurretPlacementValid_def Let_def turretsLoop_append Turret_new_def)
  have e: "staticColliders (pointermove rayHit g) = staticColliders g \<and>
           pathfinder (pointermove rayHit g) = pathfinder g"
    by (simp add: pointermove_def Let_def split: option.split)
  have f: "staticColliders (togglePause now g) = staticColliders g \<and>
           pathfinder (togglePause now g) = pathfinder g"
    by (simp add: togglePause_def Let_def showFloatingMessage_def)
  have h: "staticColliders (onPlayerDeath g) = staticColliders g \<and>
           pathfinder (onPlayerDeath g) = pathfinder g"
    by (simp add: onPlayerDeath_def)
  have i: "staticColliders (onKnifeHit dmg g) = staticColliders g \<and>
           pathfinder (onKnifeHit dmg g) = pathfinder g"
    by (simp add: onKnifeHit_def Let_def)
  from a b c [of g] c [of "loadStaticModels X rnd fixed g"] d e f h i show ?thesis
    unfolding worldBuild_def by simp
qed

lemma pointerup_commit:
  assumes "draggingTurret g = Some d"
    and "isTurretPlacementValid g (ghost_position d)"
    and "50 \<le> mana (player g)"
  shows "pointerup g =
    (addTurretToken (- 1)
       (g\<lparr>player := (player g)\<lparr>mana := mana (player g) - 50\<rparr>,
          turrets := turrets g @ [Turret_new (ghost_position d)]\<rparr>))\<lparr>draggingTurret := None\<rparr>"
  using assms by (simp add: pointerup_def Let_def spendMana_def)

lemma game_drag_valid: "isTurretPlacementValid game_drag (Vector3 0 0 0)"
  by (simp add: isTurretPlacementValid_def game_drag_def game0_def
      Game_new_def Turret_new_def box_far_def vec_defs TURRET_RADIUS_def Let_def
      power2_eq_square)

lemma game_drag_commit:
  "turrets (pointerup game_drag) = [Turret_new (Vector3 10 0 0), Turret_new (Vector3 0 0 0)]"
proof -
  have d: "draggingTurret game_drag = Some (ghost_at (Vector3 0 0 0))"
    by (simp add: game_drag_def)
  have m: "50 \<le> mana (player game_drag)"
    by (simp add: game_drag_def game0_def Game_new_def player0_def)
  have v: "isTurretPlacementValid game_drag (ghost_position (ghost_at (Vector3 0 0 0)))"
    using game_drag_valid by (simp add: ghost_at_def)
  show ?thesis
    unfolding pointerup_commit [OF d v m]
    by (simp add: addTurretToken_def showFloatingMessage_def game_drag_def ghost_at_def)
qed

subsection \<open>The scatter loops\<close>

lemma placed_Nil: "placed W g [] = g"
  by (simp add: placed_def)

lemma placed_placed: "placed W (placed W g xs) ys = placed W g (xs @ ys)"
  by (simp add: placed_def)

lemma clearSeq_append:
  "clearSeq W cs (xs @ ys) \<longleftrightarrow> clearSeq W cs xs \<and> clearSeq W (cs @ map W xs) ys"
  by (induction xs arbitrary: cs) auto

lemma clearSeq_nth:
  "clearSeq W cs new \<Longrightarrow> i < length new \<Longrightarrow>
     (\<forall>b \<in> set (cs @ map W (take i new)). \<not> intersectsBox b (W (new ! i))) \<and>
     reservedRadius < distanceTo (clone_position (new ! i)) playerSpawnPos"
proof (induction new arbitrary: cs i)
  case Nil
  then show ?case by simp
next
  case (Cons c rest)
  show ?case
  proof (cases i)
    case 0
    with Cons.prems show ?thesis
      by (simp add: list_ex_iff)
  next
    case (Suc j)
    with Cons.prems have "clearSeq W (cs @ [W c]) rest" and "j < length rest"
      by simp_all
    from Cons.IH [OF this] Suc show ?thesis
      by simp
  qed
qed

lemma attemptsLoop_placed:
  assumes "goodPass W pass"
  shows "\<exists>new. snd (attemptsLoop pass draws maxAttempts attempt was k g) = placed W g new \<and>
               clearSeq W (staticColliders g) new"
  using assms
proof (induction pass draws maxAttempts attempt was k g rule: attemptsLoop.induct)
  case (1 pass draws maxAttempts attempt was k g)
  note good = \<open>goodPass W pass\<close>
  show ?case
  proof (cases "attempt < maxAttempts \<and> \<not> was")
    case False
    then have "attemptsLoop pass draws maxAttempts attempt was k g = (k, g)"
      by (subst attemptsLoop.simps) auto
    then show ?thesis
      using placed_Nil [of W g] by (intro exI [of _ "[]"]) simp
  next
    case True
    from "1.IH" [OF True good] obtain new where
      new: "snd (attemptsLoop pass draws maxAttempts (attempt + 1) (fst (pass k g)) (k + draws)
                   (snd (pass k g))) = placed W (snd (pass k g)) new"
        "clearSeq W (staticColliders (snd (pass k g))) new"
      by blast
    from good have "pass k g = (False, g) \<or>
        (\<exists>c. pass k g = (True, placed W g [c]) \<and> clearSeq W (staticColliders g) [c])"
      by (simp add: goodPass_def)
    then show ?thesis
    proof
      assume "pass k g = (False, g)"
      with new True show ?thesis
        by (intro exI [of _ new]) (subst attemptsLoop.simps, simp)
    next
      assume "\<exists>c. pass k g = (True, placed W g [c]) \<and> clearSeq W (staticColliders g) [c]"
      then obtain c where c: "pass k g = (True, placed W g [c])"
        "clearSeq W (staticColliders g) [c]"
        by blast
      with True have
        "attemptsLoop pass draws maxAttempts attempt was k g = (k + draws, placed W g [c])"
        by (subst attemptsLoop.simps, simp, subst attemptsLoop.simps, simp)
      with c show ?thesis
        by (intro exI [of _ "[c]"]) simp
    qed
  qed
qed


lemma instancesLoop_placed:
  assumes "goodPass W pass"
  shows "\<exists>new. snd (instancesLoop pass draws maxAttempts count n k g) = placed W g new \<and>
               clearSeq W (staticColliders g) new"
  using assms
proof (induction pass draws maxAttempts count n k g rule: instancesLoop.induct)
  case (1 pass draws maxAttempts count n k g)
  note good = \<open>goodPass W pass\<close>
  show ?case
  proof (cases "n < count")
    case False
    then have "instancesLoop pass draws maxAttempts count n k g = (k, g)"
      by (subst instancesLoop.simps) simp
    then show ?thesis
      using placed_Nil [of W g] by (intro exI [of _ "[]"]) simp
  next
    case True
    obtain k' g' where a: "attemptsLoop pass draws maxAttempts 0 False k g = (k', g')"
      by (cases "attemptsLoop pass draws maxAttempts 0 False k g")
    from attemptsLoop_placed [OF good, of draws maxAttempts 0 False k g] a
    obtain xs where xs: "g' = placed W g xs" "clearSeq W (staticColliders g) xs"
      by auto
    from "1.IH" [OF True a [symmetric] good]
    obtain ys where ys:
      "snd (instancesLoop pass draws maxAttempts count (n + 1) k' g') = placed W g' ys"
      "clearSeq W (staticColliders g') ys"
      by blast
    have "snd (instancesLoop pass draws maxAttempts count n k g) = placed W g (xs @ ys)"
      using True a xs ys by (subst instancesLoop.simps) (simp add: placed_placed)
    moreover have "clearSeq W (staticColliders g) (xs @ ys)"
      using xs ys by (simp add: clearSeq_append placed_def)
    ultimately show ?thesis
      by blast
  qed
qed

lemma goodPass_rock: "goodPass (setFromObject_rock X) (loadStaticRocks_attempt X rnd)"
proof -
  have r: "(0::real) \<le> reservedRadius"
    by (simp add: reservedRadius_def)
  show ?thesis
    unfolding goodPass_def placed_def clearSeq.simps distanceTo_gt_iff [OF r]
    apply (simp add: loadStaticRocks_attempt_def Let_def reservedRadiusSq_def setY_def Vector3_def)
    apply (intro allI impI exI conjI)
      apply (rule refl)
     apply simp_all
    done
qed

lemma goodPass_fence: "goodPass (setFromObject_fence X) (loadStaticFences_attempt X rnd)"
proof -
  have r: "(0::real) \<le> reservedRadius"
    by (simp add: reservedRadius_def)
  show ?thesis
    unfolding goodPass_def placed_def clearSeq.simps distanceTo_gt_iff [OF r]
    apply (simp add: loadStaticFences_attempt_def Let_def reservedRadiusSq_def setY_def Vector3_def)
    apply (intro allI impI exI conjI)
      apply (rule refl)
     apply simp_all
    done
qed

lemma instancesLoop_clear:
  assumes "goodPass W pass"
  shows "\<exists>new. snd (instancesLoop pass draws maxAttempts count n k g) =
                 g\<lparr>scene := scene g @ new, staticColliders := staticColliders g @ map W new\<rparr> \<and>
               (\<forall>i < length new.
                  (\<forall>b \<in> set (staticColliders g @ map W (take i new)).
                      \<not> intersectsBox b (W (new ! i))) \<and>
                  reservedRadius < distanceTo (clone_position (new ! i)) playerSpawnPos)"
proof -
  from instancesLoop_placed [OF assms, of draws maxAttempts count n k g]
  obtain new where
    "snd (instancesLoop pass draws maxAttempts count n k g) = placed W g new"
    "clearSeq W (staticColliders g) new"
    by blast
  then show ?thesis
    using clearSeq_nth [of W "staticColliders g" new]
    by (intro exI [of _ new]) (simp add: placed_def)
qed

lemma pointerup_cases:
  assumes "draggingTurret g = Some d"
  shows "turrets (pointerup g) = turrets g \<or>
         (isTurretPlacementValid g (ghost_position d) \<and>
          turrets (pointerup g) = turrets g @ [Turret_new (ghost_position d)])"
  using assms
  by (simp add: pointerup_def Let_def addTurretToken_def showFloatingMessage_def
      split: prod.split)

text \<open>
  Claim C1, amended. Every rock and every fence the scatter loops place has a world box
  that intersects none of the boxes registered before it (those of \<open>staticColliders\<close> at
  the start and those of the clones placed earlier), and stands strictly outside the
  clearance radius 60 around the player's spawn point. Every turret a commit places has a
  footprint box that intersects no box of \<open>staticColliders\<close>, and stands at least
  \<open>2 * TURRET_RADIUS\<close> from every turret placed before; a turret's distance to the spawn
  point is not tested.
\<close>

theorem committed_instances_clear:
  "(\<exists>new. snd (loadStaticRocks X rnd k g) =
            g\<lparr>scene := scene g @ new,
              staticColliders := staticColliders g @ map (setFromObject_rock X) new\<rparr> \<and>
          (\<forall>i < length new.
             (\<forall>b \<in> set (staticColliders g @ map (setFromObject_rock X) (take i new)).
                 \<not> intersectsBox b (setFromObject_rock X (new ! i))) \<and>
             reservedRadius < distanceTo (clone_position (new ! i)) playerSpawnPos)) \<and>
   (\<exists>new. snd (loadStaticFences X rnd k g) =
            g\<lparr>scene := scene g @ new,
              staticColliders := staticColliders g @ map (setFromObject_fence X) new\<rparr> \<and>
          (\<forall>i < length new.
             (\<forall>b \<in> set (staticColliders g @ map (setFromObject_fence X) (take i new)).
                 \<not> intersectsBox b (setFromObject_fence X (new ! i))) \<and>
             reservedRadius < distanceTo (clone_position (new ! i)) playerSpawnPos)) \<and>
   (draggingTurret g = Some d \<and> turrets (pointerup g) \<noteq> turrets g \<longrightarrow>
      turrets (pointerup g) = turrets g @ [Turret_new (ghost_position d)] \<and>
      (\<forall>b \<in> set (staticColliders g).
         \<not> intersectsBox b
             (Box3 (Vector3 (vx (ghost_position d) - TURRET_RADIUS) (- 1)
                            (vz (ghost_position d) - TURRET_RADIUS))
                   (Vector3 (vx (ghost_position d) + TURRET_RADIUS) 3
                            (vz (ghost_position d) + TURRET_RADIUS)))) \<and>
      (\<forall>t \<in> set (turrets g).
         2 * TURRET_RADIUS \<le> distanceTo (object_position t) (ghost_position d)))"
proof (intro conjI)
  show "\<exists>new. snd (loadStaticRocks X rnd k g) =
            g\<lparr>scene := scene g @ new,
              staticColliders := staticColliders g @ map (setFromObject_rock X) new\<rparr> \<and>
          (\<forall>i < length new.
             (\<forall>b \<in> set (staticColliders g @ map (setFromObject_rock X) (take i new)).
                 \<not> intersectsBox b (setFromObject_rock X (new ! i))) \<and>
             reservedRadius < distanceTo (clone_position (new ! i)) playerSpawnPos)"
    unfolding loadStaticRocks_def Let_def by (rule instancesLoop_clear [OF goodPass_rock])
  show "\<exists>new. snd (loadStaticFences X rnd k g) =
            g\<lparr>scene := scene g @ new,
              staticColliders := staticColliders g @ map (setFromObject_fence X) new\<rparr> \<and>
          (\<forall>i < length new.
             (\<forall>b \<in> set (staticColliders g @ map (setFromObject_fence X) (take i new)).
                 \<not> intersectsBox b (setFromObject_fence X (new ! i))) \<and>
             reservedRadius < distanceTo (clone_position (new ! i)) playerSpawnPos)"
    unfolding loadStaticFences_def Let_def by (rule instancesLoop_clear [OF goodPass_fence])
  show "draggingTurret g = Some d \<and> turrets (pointerup g) \<noteq> turrets g \<longrightarrow>
      turrets (pointerup g) = turrets g @ [Turret_new (ghost_position d)] \<and>
      (\<forall>b \<in> set (staticColliders g).
         \<not> intersectsBox b
             (Box3 (Vector3 (vx (ghost_position d) - TURRET_RADIUS) (- 1)
                            (vz (ghost_position d) - TURRET_RADIUS))
                   (Vector3 (vx (ghost_position d) + TURRET_RADIUS) 3
                            (vz (ghost_position d) + TURRET_RADIUS)))) \<and>
      (\<forall>t \<in> set (turrets g).
         2 * TURRET_RADIUS \<le> distanceTo (object_position t) (ghost_position d))"
  proof
    assume a: "draggingTurret g = Some d \<and> turrets (pointerup g) \<noteq> turrets g"
    have r: "0 \<le> TURRET_RADIUS"
      by (simp add: TURRET_RADIUS_def)
    from a pointerup_cases [of g d]
    have v: "isTurretPlacementValid g (ghost_position d)"
      and t: "turrets (pointerup g) = turrets g @ [Turret_new (ghost_position d)]"
      by auto
    from v have "(\<forall>b \<in> set (staticColliders g).
         \<not> intersectsBox b
             (Box3 (Vector3 (vx (ghost_position d) - TURRET_RADIUS) (- 1)
                            (vz (ghost_position d) - TURRET_RADIUS))
                   (Vector3 (vx (ghost_position d) + TURRET_RADIUS) 3
                            (vz (ghost_position d) + TURRET_RADIUS)))) \<and>
      (\<forall>t \<in> set (turrets g).
         2 * TURRET_RADIUS \<le> distanceTo (object_position t) (ghost_position d))"
      by (simp add: isTurretPlacementValid_def Let_def turretsLoop_iff [OF r] list_ex_iff
          split: if_splits)
    with t show "turrets (pointerup g) = turrets g @ [Turret_new (ghost_position d)] \<and>
      (\<forall>b \<in> set (staticColliders g).
         \<not> intersectsBox b
             (Box3 (Vector3 (vx (ghost_position d) - TURRET_RADIUS) (- 1)
                            (vz (ghost_position d) - TURRET_RADIUS))
                   (Vector3 (vx (ghost_position d) + TURRET_RADIUS) 3
                            (vz (ghost_position d) + TURRET_RADIUS)))) \<and>
      (\<forall>t \<in> set (turrets g).
         2 * TURRET_RADIUS \<le> distanceTo (object_position t) (ghost_position d))"
      by simp
  qed
qed


lemma attemptsLoop_all_fail:
  assumes "\<And>a. a < M - attempt \<Longrightarrow> pass (k + a * draws) g = (False, g)"
  shows "attemptsLoop pass draws M attempt False k g = (k + (M - attempt) * draws, g)"
  using assms
proof (induction "M - attempt" arbitrary: attempt k)
  case 0
  then show ?case
    by (subst attemptsLoop.simps) simp
next
  case (Suc d)
  from Suc.hyps have lt: "attempt < M" and d: "d = M - (attempt + 1)"
    by simp_all
  from Suc.prems [of 0] lt have p: "pass k g = (False, g)"
    by simp
  have "\<And>a. a < M - (attempt + 1) \<Longrightarrow> pass (k + draws + a * draws) g = (False, g)"
  proof -
    fix a
    assume "a < M - (attempt + 1)"
    then have "Suc a < M - attempt"
      by simp
    from Suc.prems [OF this] show "pass (k + draws + a * draws) g = (False, g)"
      by (simp add: ac_simps)
  qed
  from Suc.hyps(1) [OF d this]
  have "attemptsLoop pass draws M (attempt + 1) False (k + draws) g =
          (k + draws + (M - (attempt + 1)) * draws, g)" .
  moreover have "k + draws + (M - (attempt + 1)) * draws = k + (M - attempt) * draws"
    using lt by (metis Suc.hyps(2) d add.assoc mult_Suc)
  ultimately show ?case
    using lt p by (subst attemptsLoop.simps) simp
qed

lemma instancesLoop_step:
  assumes "n < count"
    and "attemptsLoop pass draws M 0 False k g = (k', g')"
  shows "instancesLoop pass draws M count n k g = instancesLoop pass draws M count (n + 1) k' g'"
  using assms by (subst instancesLoop.simps) simp

lemma instancesLoop_done:
  "\<not> n < count \<Longrightarrow> instancesLoop pass draws M count n k g = (k, g)"
  by (subst instancesLoop.simps) simp

lemma rock_fail:
  "\<not> fst (loadStaticRocks_attempt X rnd k g) \<Longrightarrow> loadStaticRocks_attempt X rnd k g = (False, g)"
  by (simp add: loadStaticRocks_attempt_def Let_def split: if_splits)

lemma fence_fail:
  "\<not> fst (loadStaticFences_attempt X rnd k g) \<Longrightarrow> loadStaticFences_attempt X rnd k g = (False, g)"
  by (simp add: loadStaticFences_attempt_def Let_def split: if_splits)

text \<open>
  Claim C6. When all 40 passes for a rock (or a fence) fail the test, the inner loop
  returns with the state as it was: nothing is appended to \<open>staticColliders\<close> and nothing
  is added to the scene; only the 40 passes' random numbers are drawn. The outer loop goes
  on with the next instance from that state, for each of the 15 rocks and 5 fences. The
  loops are total functions, so the build always returns.
\<close>

theorem exhausted_attempts_skip:
  "((\<forall>a<40. \<not> fst (loadStaticRocks_attempt X rnd (k + a * 4) g)) \<longrightarrow>
      attemptsLoop (loadStaticRocks_attempt X rnd) 4 40 0 False k g = (k + 160, g) \<and>
      (\<forall>n<15. instancesLoop (loadStaticRocks_attempt X rnd) 4 40 15 n k g =
               instancesLoop (loadStaticRocks_attempt X rnd) 4 40 15 (n + 1) (k + 160) g)) \<and>
   ((\<forall>a<40. \<not> fst (loadStaticFences_attempt X rnd (k + a * 3) g)) \<longrightarrow>
      attemptsLoop (loadStaticFences_attempt X rnd) 3 40 0 False k g = (k + 120, g) \<and>
      (\<forall>n<5. instancesLoop (loadStaticFences_attempt X rnd) 3 40 5 n k g =
              instancesLoop (loadStaticFences_attempt X rnd) 3 40 5 (n + 1) (k + 120) g))"
proof (intro conjI impI)
  assume "\<forall>a<40. \<not> fst (loadStaticRocks_attempt X rnd (k + a * 4) g)"
  then have "\<And>a. a < 40 - 0 \<Longrightarrow> loadStaticRocks_attempt X rnd (k + a * 4) g = (False, g)"
    by (simp add: rock_fail)
  from attemptsLoop_all_fail [of 40 0 "loadStaticRocks_attempt X rnd" k 4 g, OF this]
  show a: "attemptsLoop (loadStaticRocks_attempt X rnd) 4 40 0 False k g = (k + 160, g)"
    by simp
  show "\<forall>n<15. instancesLoop (loadStaticRocks_attempt X rnd) 4 40 15 n k g =
               instancesLoop (loadStaticRocks_attempt X rnd) 4 40 15 (n + 1) (k + 160) g"
    using instancesLoop_step [OF _ a] by blast
next
  assume "\<forall>a<40. \<not> fst (loadStaticFences_attempt X rnd (k + a * 3) g)"
  then have "\<And>a. a < 40 - 0 \<Longrightarrow> loadStaticFences_attempt X rnd (k + a * 3) g = (False, g)"
    by (simp add: fence_fail)
  from attemptsLoop_all_fail [of 40 0 "loadStaticFences_attempt X rnd" k 3 g, OF this]
  show a: "attemptsLoop (loadStaticFences_attempt X rnd) 3 40 0 False k g = (k + 120, g)"
    by simp
  show "\<forall>n<5. instancesLoop (loadStaticFences_attempt X rnd) 3 40 5 n k g =
              instancesLoop (loadStaticFences_attempt X rnd) 3 40 5 (n + 1) (k + 120) g"
    using instancesLoop_step [OF _ a] by blast
qed

lemma rock_half: "loadStaticRocks_attempt ext0 (\<lambda>n. 1 / 2) k game0 = (False, game0)"
  by (simp add: loadStaticRocks_attempt_def Let_def randFloatSpread_def vec_defs
      playerSpawnPos_def reservedRadiusSq_def reservedRadius_def)

lemma fence_half: "loadStaticFences_attempt ext0 (\<lambda>n. 1 / 2) k game0 = (False, game0)"
  by (simp add: loadStaticFences_attempt_def Let_def randFloatSpread_def vec_defs
      playerSpawnPos_def reservedRadiusSq_def reservedRadius_def)

theorem exhausted_attempts_skip_witness:
  "loadStaticRocks ext0 (\<lambda>n. 1 / 2) 0 game0 = (2400, game0) \<and>
   loadStaticFences ext0 (\<lambda>n. 1 / 2) 0 game0 = (600, game0)"
proof -
  have r: "\<And>k n. n < 15 \<Longrightarrow>
         instancesLoop (loadStaticRocks_attempt ext0 (\<lambda>n. 1 / 2)) 4 40 15 n k game0 =
         instancesLoop (loadStaticRocks_attempt ext0 (\<lambda>n. 1 / 2)) 4 40 15 (n + 1) (k + 160) game0"
    using exhausted_attempts_skip [of ext0 "\<lambda>n. 1 / 2" _ game0]
    by (simp add: rock_half fence_half)
  have f: "\<And>k n. n < 5 \<Longrightarrow>
         instancesLoop (loadStaticFences_attempt ext0 (\<lambda>n. 1 / 2)) 3 40 5 n k game0 =
         instancesLoop (loadStaticFences_attempt ext0 (\<lambda>n. 1 / 2)) 3 40 5 (n + 1) (k + 120) game0"
    using exhausted_attempts_skip [of ext0 "\<lambda>n. 1 / 2" _ game0]
    by (simp add: rock_half fence_half)
  have "loadStaticRocks ext0 (\<lambda>n. 1 / 2) 0 game0 = (2400, game0)"
    by (simp add: loadStaticRocks_def r instancesLoop_done)
  moreover have "loadStaticFences ext0 (\<lambda>n. 1 / 2) 0 game0 = (600, game0)"
    by (simp add: loadStaticFences_def f instancesLoop_done)
  ultimately show ?thesis
    by simp
qed


text \<open>The world build where every scatter attempt falls on the spawn point.\<close>

lemma rock_half_any: "loadStaticRocks_attempt X (\<lambda>n. 1 / 2) k g = (False, g)"
  by (simp add: loadStaticRocks_attempt_def Let_def randFloatSpread_def vec_defs
      playerSpawnPos_def reservedRadiusSq_def reservedRadius_def)

lemma fence_half_any: "loadStaticFences_attempt X (\<lambda>n. 1 / 2) k g = (False, g)"
  by (simp add: loadStaticFences_attempt_def Let_def randFloatSpread_def vec_defs
      playerSpawnPos_def reservedRadiusSq_def reservedRadius_def)

lemma loadStaticModels_half:
  "loadStaticModels X (\<lambda>n. 1 / 2) fixed g = g\<lparr>staticColliders := staticColliders g @ fixed\<rparr>"
proof -
  have a: "\<And>k g. attemptsLoop (loadStaticRocks_attempt X (\<lambda>n. 1 / 2)) 4 40 0 False k g
                 = (k + 160, g)"
    using attemptsLoop_all_fail [of 40 0 "loadStaticRocks_attempt X (\<lambda>n. 1 / 2)" _ 4]
    by (simp add: rock_half_any)
  have b: "\<And>k g. attemptsLoop (loadStaticFences_attempt X (\<lambda>n. 1 / 2)) 3 40 0 False k g
                 = (k + 120, g)"
    using attemptsLoop_all_fail [of 40 0 "loadStaticFences_attempt X (\<lambda>n. 1 / 2)" _ 3]
    by (simp add: fence_half_any)
  have r: "\<And>k g. loadStaticRocks X (\<lambda>n. 1 / 2) k g = (k + 2400, g)"
    by (simp add: loadStaticRocks_def instancesLoop_step [OF _ a] instancesLoop_done)
  have f: "\<And>k g. loadStaticFences X (\<lambda>n. 1 / 2) k g = (k + 600, g)"
    by (simp add: loadStaticFences_def instancesLoop_step [OF _ b] instancesLoop_done)
  show ?thesis
    by (simp add: loadStaticModels_def r f)
qed

lemma valid_pathfinder:
  "isTurretPlacementValid (g\<lparr>pathfinder := pf\<rparr>) pos = isTurretPlacementValid g pos"
  by (simp add: isTurretPlacementValid_def)

theorem pointerup_keeps_static_world_witness:
  "worldBuild ext0 (\<lambda>n. 1 / 2) [box_far] game0 =
     game0\<lparr>staticColliders := [box_far],
           pathfinder := Some \<lparr>grid_cols = 250, grid_rows = 250, grid_cellSize = 2,
                                baked = [box_far]\<rparr>\<rparr> \<and>
   staticColliders (pointerup (initPathfinding game_drag)) = [box_far] \<and>
   pathfinder (pointerup (initPathfinding game_drag)) =
     Some \<lparr>grid_cols = 250, grid_rows = 250, grid_cellSize = 2, baked = [box_far]\<rparr> \<and>
   turrets (pointerup (initPathfinding game_drag)) =
     [Turret_new (Vector3 10 0 0), Turret_new (Vector3 0 0 0)]"
proof -
  note w = pointerup_keeps_static_world [of game0 ext0 "\<lambda>n. 1 / 2" "[box_far]"]
  note i = pointerup_keeps_static_world [of game_drag]
  note u = pointerup_keeps_static_world [of "initPathfinding game_drag"]
  have ip: "initPathfinding game_drag =
     game_drag\<lparr>pathfinder := Some \<lparr>grid_cols = 250, grid_rows = 250, grid_cellSize = 2,
                                    baked = staticColliders game_drag\<rparr>\<rparr>"
    using i by blast
  have a: "worldBuild ext0 (\<lambda>n. 1 / 2) [box_far] game0 =
     game0\<lparr>staticColliders := [box_far],
           pathfinder := Some \<lparr>grid_cols = 250, grid_rows = 250, grid_cellSize = 2,
                                baked = [box_far]\<rparr>\<rparr>"
    using w by (simp add: loadStaticModels_half game0_def Game_new_def)
  have d: "draggingTurret (initPathfinding game_drag) = Some (ghost_at (Vector3 0 0 0))"
    unfolding ip by (simp add: game_drag_def)
  have m: "50 \<le> mana (player (initPathfinding game_drag))"
    unfolding ip by (simp add: game_drag_def game0_def Game_new_def player0_def)
  have v: "isTurretPlacementValid (initPathfinding game_drag)
             (ghost_position (ghost_at (Vector3 0 0 0)))"
    unfolding ip valid_pathfinder using game_drag_valid by (simp add: ghost_at_def)
  have t: "turrets (pointerup (initPathfinding game_drag)) =
     [Turret_new (Vector3 10 0 0), Turret_new (Vector3 0 0 0)]"
    unfolding pointerup_commit [OF d v m] unfolding ip
    by (simp add: addTurretToken_def showFloatingMessage_def game_drag_def ghost_at_def)
  from u have "staticColliders (pointerup (initPathfinding game_drag)) =
                 staticColliders (initPathfinding game_drag)"
    and "pathfinder (pointerup (initPathfinding game_drag)) =
                 pathfinder (initPathfinding game_drag)"
    by blast+
  then have p: "staticColliders (pointerup (initPathfinding game_drag)) = [box_far]"
    "pathfinder (pointerup (initPathfinding game_drag)) =
     Some \<lparr>grid_cols = 250, grid_rows = 250, grid_cellSize = 2, baked = [box_far]\<rparr>"
    unfolding ip by (simp_all add: game_drag_def)
  from a p t show ?thesis
    by simp
qed

text \<open>
  Claim C1 as stated fails for turrets: the commit has no test of the clearance radius.
  A drag that ends on the player's spawn point, with nothing near and mana enough, places
  the turret there, at distance 0 from the spawn point.
\<close>

theorem turret_commit_inside_clearance:
  "turrets (pointerup game_drag) = turrets game_drag @ [Turret_new (Vector3 0 0 0)] \<and>
   \<not> reservedRadius < distanceTo (object_position (Turret_new (Vector3 0 0 0))) playerSpawnPos"
proof -
  have "distanceTo (object_position (Turret_new (Vector3 0 0 0))) playerSpawnPos = 0"
    by (simp add: distanceTo_def distanceToSquared_def Turret_new_def playerSpawnPos_def
        Vector3_def)
  with game_drag_commit show ?thesis
    by (simp add: reservedRadius_def game_drag_def)
qed

lemma rock_zero_first: "loadStaticRocks_attempt ext0 (\<lambda>n. 0) k game0 = (True, game_rock)"
  by (simp add: loadStaticRocks_attempt_def Let_def randFloatSpread_def vec_defs lerp_def
      playerSpawnPos_def reservedRadiusSq_def reservedRadius_def game_rock_def rock0_def
      game0_def Game_new_def ext0_def)

lemma rock_zero_again: "loadStaticRocks_attempt ext0 (\<lambda>n. 0) k game_rock = (False, game_rock)"
  by (simp add: loadStaticRocks_attempt_def Let_def randFloatSpread_def vec_defs lerp_def
      playerSpawnPos_def reservedRadiusSq_def reservedRadius_def game_rock_def rock0_def
      game0_def Game_new_def ext0_def unitBox_def)

lemma rocks_zero: "loadStaticRocks ext0 (\<lambda>n. 0) 0 game0 = (2244, game_rock)"
proof -
  have a: "attemptsLoop (loadStaticRocks_attempt ext0 (\<lambda>n. 0)) 4 40 0 False 0 game0 =
             (4, game_rock)"
    by (subst attemptsLoop.simps, simp add: rock_zero_first, subst attemptsLoop.simps, simp)
  have b: "\<And>k. attemptsLoop (loadStaticRocks_attempt ext0 (\<lambda>n. 0)) 4 40 0 False k game_rock =
             (k + 160, game_rock)"
    using attemptsLoop_all_fail [of 40 0 "loadStaticRocks_attempt ext0 (\<lambda>n. 0)" _ 4 game_rock]
    by (simp add: rock_zero_again)
  have c: "\<And>k n. n < 15 \<Longrightarrow>
         instancesLoop (loadStaticRocks_attempt ext0 (\<lambda>n. 0)) 4 40 15 n k game_rock =
         instancesLoop (loadStaticRocks_attempt ext0 (\<lambda>n. 0)) 4 40 15 (n + 1) (k + 160) game_rock"
    by (rule instancesLoop_step [OF _ b])
  show ?thesis
    unfolding loadStaticRocks_def Let_def
    by (subst instancesLoop_step [OF _ a]) (simp_all add: c instancesLoop_done)
qed

theorem committed_instances_clear_witness:
  "snd (loadStaticRocks ext0 (\<lambda>n. 0) 0 game0) = game_rock \<and>
   reservedRadius < distanceTo (clone_position rock0) playerSpawnPos \<and>
   turrets (pointerup game_drag) = [Turret_new (Vector3 10 0 0), Turret_new (Vector3 0 0 0)] \<and>
   \<not> intersectsBox box_far
        (Box3 (Vector3 (0 - TURRET_RADIUS) (- 1) (0 - TURRET_RADIUS))
              (Vector3 (0 + TURRET_RADIUS) 3 (0 + TURRET_RADIUS))) \<and>
   2 * TURRET_RADIUS \<le> distanceTo (Vector3 10 0 0) (Vector3 0 0 0)"
proof -
  note inst = committed_instances_clear [of ext0 "\<lambda>n. 0" 0 game0]
  note inst_drag = committed_instances_clear [of _ _ _ game_drag "ghost_at (Vector3 0 0 0)"]
  from inst [THEN conjunct1] obtain new where
    new: "snd (loadStaticRocks ext0 (\<lambda>n. 0) 0 game0) =
            game0\<lparr>scene := scene game0 @ new,
                  staticColliders := staticColliders game0 @ map (setFromObject_rock ext0) new\<rparr>"
    and clear: "\<forall>i < length new.
             (\<forall>b \<in> set (staticColliders game0 @ map (setFromObject_rock ext0) (take i new)).
                 \<not> intersectsBox b (setFromObject_rock ext0 (new ! i))) \<and>
             reservedRadius < distanceTo (clone_position (new ! i)) playerSpawnPos"
    by blast
  from new have "game_rock = game0\<lparr>scene := scene game0 @ new,
                  staticColliders := staticColliders game0 @ map (setFromObject_rock ext0) new\<rparr>"
    by (simp add: rocks_zero)
  then have "scene game_rock = scene (game0\<lparr>scene := scene game0 @ new,
                  staticColliders := staticColliders game0 @ map (setFromObject_rock ext0) new\<rparr>)"
    by (rule arg_cong)
  then have "scene game_rock = scene game0 @ new"
    by simp
  then have n: "new = [rock0]"
    by (simp add: game_rock_def game0_def Game_new_def)
  with clear have a: "reservedRadius < distanceTo (clone_position rock0) playerSpawnPos"
    by simp
  note t = game_drag_commit
  have "draggingTurret game_drag = Some (ghost_at (Vector3 0 0 0)) \<and>
        turrets (pointerup game_drag) \<noteq> turrets game_drag"
    using t by (simp add: game_drag_def)
  with inst_drag [THEN conjunct2, THEN conjunct2]
  have "\<not> intersectsBox box_far
        (Box3 (Vector3 (0 - TURRET_RADIUS) (- 1) (0 - TURRET_RADIUS))
              (Vector3 (0 + TURRET_RADIUS) 3 (0 + TURRET_RADIUS))) \<and>
     2 * TURRET_RADIUS \<le> distanceTo (Vector3 10 0 0) (Vector3 0 0 0)"
    by (simp add: game_drag_def ghost_at_def Turret_new_def Vector3_def)
  with a t show ?thesis
    by (simp add: rocks_zero)
qed

subsection \<open>Bullets\<close>


lemma bulletEnemies_miss:
  assumes "n \<le> length es"
    and "\<forall>i < n. \<not> distanceTo (position b) (position (es ! i)) < radius b + radius (es ! i)"
  shows "bulletEnemies b n es = (False, es)"
  using assms by (induction n) (simp_all add: Let_def)




subsection \<open>The knife\<close>

lemma length3_nonneg: "0 \<le> length3 a"
  by (simp add: length3_def)

lemma length3_zero_iff: "length3 a = 0 \<longleftrightarrow> vx a = 0 \<and> vy a = 0 \<and> vz a = 0"
proof -
  have "vx a * vx a + vy a * vy a + vz a * vz a = 0 \<longleftrightarrow> vx a = 0 \<and> vy a = 0 \<and> vz a = 0"
    by (simp add: add_nonneg_eq_0_iff)
  then show ?thesis
    by (simp add: length3_def)
qed

lemma length3_multiplyScalar: "length3 (multiplyScalar a s) = \<bar>s\<bar> * length3 a"
proof -
  have "vx a * s * (vx a * s) + vy a * s * (vy a * s) + vz a * s * (vz a * s)
        = s ^ 2 * (vx a * vx a + vy a * vy a + vz a * vz a)"
    by (simp add: power2_eq_square algebra_simps)
  then show ?thesis
    by (simp add: length3_def multiplyScalar_def Vector3_def real_sqrt_mult)
qed

lemma length3_normalize: "length3 a \<noteq> 0 \<Longrightarrow> length3 (normalize a) = 1"
  using length3_nonneg [of a]
  by (simp add: normalize_def Let_def length3_multiplyScalar)

lemma normalize_zero: "length3 a = 0 \<Longrightarrow> normalize a = a"
  by (simp add: normalize_def multiplyScalar_def Vector3_def)

lemma setY_multiplyScalar: "setY (multiplyScalar a s) 0 = multiplyScalar (setY a 0) s"
  by (simp add: setY_def multiplyScalar_def Vector3_def)

lemma multiplyScalar_twice: "multiplyScalar (multiplyScalar a s) t = multiplyScalar a (s * t)"
  by (simp add: multiplyScalar_def Vector3_def)

text \<open>Normalising before the vertical component is dropped does not change the direction.\<close>

lemma normalize_setY_normalize: "normalize (setY (normalize a) 0) = normalize (setY a 0)"
proof (cases "length3 a = 0")
  case True
  then show ?thesis
    by (simp add: normalize_zero)
next
  case False
  with length3_nonneg [of a] have l: "0 < length3 a"
    by simp
  have n: "normalize a = multiplyScalar a (1 / length3 a)"
    using False by (simp add: normalize_def)
  have len: "length3 (multiplyScalar (setY a 0) (1 / length3 a)) = length3 (setY a 0) / length3 a"
    using l by (simp add: length3_multiplyScalar)
  show ?thesis
  proof (cases "length3 (setY a 0) = 0")
    case True
    then have "vx a = 0" and "vz a = 0"
      by (simp_all add: length3_zero_iff setY_def)
    then have "setY a 0 = \<lparr>vx = 0, vy = 0, vz = 0\<rparr>"
      by (cases a) (simp add: setY_def)
    moreover from \<open>vx a = 0\<close> \<open>vz a = 0\<close>
    have "setY (normalize a) 0 = \<lparr>vx = 0, vy = 0, vz = 0\<rparr>"
      by (simp add: n setY_def multiplyScalar_def Vector3_def)
    ultimately show ?thesis
      by simp
  next
    case h: False
    then have "length3 (multiplyScalar (setY a 0) (1 / length3 a)) \<noteq> 0"
      using l by (simp add: len)
    then show ?thesis
      using h l
      by (simp add: n setY_multiplyScalar normalize_def [of "multiplyScalar (setY a 0) (1 / length3 a)"]
          normalize_def [of "setY a 0"] len multiplyScalar_twice)
  qed
qed


lemma dot_knockback_nonneg:
  assumes "0 \<le> s"
  shows "0 \<le> dot (multiplyScalar (normalize (setY t 0)) s) t"
proof -
  have d: "0 < (if length3 (setY t 0) = 0 then 1 else length3 (setY t 0))"
    using length3_nonneg [of "setY t 0"] by simp
  have "dot (multiplyScalar (normalize (setY t 0)) s) t =
          (vx t * vx t + vz t * vz t) * (s / (if length3 (setY t 0) = 0 then 1 else length3 (setY t 0)))"
    by (simp add: dot_def multiplyScalar_def normalize_def Let_def Vector3_def setY_def
        algebra_simps add_divide_distrib)
  moreover have "0 \<le> vx t * vx t + vz t * vz t"
    by simp
  ultimately show ?thesis
    using assms d by (simp add: zero_le_mult_iff zero_le_divide_iff)
qed

lemma knifeCallback_miss:
  assumes "\<not> (length3 (sub (position (es ! k)) playerPos) < knifeRange \<and>
              0 < dot forward (normalize (sub (position (es ! k)) playerPos)))"
  shows "knifeCallback dmg forward playerPos k es = es"
  using assms by (auto simp: knifeCallback_def Let_def)

lemma knifeCallback_hit:
  assumes "length3 (sub (position (es ! k)) playerPos) < knifeRange"
    and "0 < dot forward (normalize (sub (position (es ! k)) playerPos))"
  shows "knifeCallback dmg forward playerPos k es =
     (if fst (takeDamage dmg (es ! k))
      then removeEnemy (snd (takeDamage dmg (es ! k))) (es[k := snd (takeDamage dmg (es ! k))])
      else es[k := (snd (takeDamage dmg (es ! k)))\<lparr>velocity :=
             add (velocity (snd (takeDamage dmg (es ! k))))
                 (multiplyScalar (normalize (setY (sub (position (es ! k)) playerPos) 0))
                    (dmg * 0.5 / mass (snd (takeDamage dmg (es ! k)))))\<rparr>])"
  using assms
  by (simp add: knifeCallback_def Let_def split_def normalize_setY_normalize)

text \<open>
  Claim C3. For a knife hit (the enemy in range and in front) that is not lethal, the
  callback adds to the enemy's velocity the vector \<open>dv\<close>: the normalised horizontal
  vector from the player to the enemy, times \<open>dmg * 0.5 / mass\<close>. Its vertical component
  is 0; for a damage that is not negative and a positive mass it does not point towards
  the player, and where the enemy is not straight above or below the player its length
  is \<open>dmg * 0.5 / mass\<close>. For a lethal hit the enemy is removed and its velocity is not
  changed.
\<close>

theorem knife_knockback:
  assumes "length3 (sub (position (es ! k)) playerPos) < knifeRange"
    and "0 < dot forward (normalize (sub (position (es ! k)) playerPos))"
    and "dv = multiplyScalar (normalize (setY (sub (position (es ! k)) playerPos) 0))
                (dmg * 0.5 / mass (es ! k))"
  shows "(\<not> fst (takeDamage dmg (es ! k)) \<longrightarrow>
            knifeCallback dmg forward playerPos k es =
              es[k := (snd (takeDamage dmg (es ! k)))\<lparr>velocity := add (velocity (es ! k)) dv\<rparr>] \<and>
            vy dv = 0 \<and>
            (0 \<le> dmg \<and> 0 < mass (es ! k) \<longrightarrow>
               0 \<le> dot dv (sub (position (es ! k)) playerPos) \<and>
               (length3 (setY (sub (position (es ! k)) playerPos) 0) \<noteq> 0 \<longrightarrow>
                  length3 dv = dmg * 0.5 / mass (es ! k)))) \<and>
         (fst (takeDamage dmg (es ! k)) \<longrightarrow>
            knifeCallback dmg forward playerPos k es =
              removeEnemy (snd (takeDamage dmg (es ! k))) (es[k := snd (takeDamage dmg (es ! k))]) \<and>
            velocity (snd (takeDamage dmg (es ! k))) = velocity (es ! k))"
proof -
  have keep: "velocity (snd (takeDamage dmg (es ! k))) = velocity (es ! k)"
    "mass (snd (takeDamage dmg (es ! k))) = mass (es ! k)"
    by (simp_all add: takeDamage_def Let_def)
  have y: "vy dv = 0"
    by (simp add: assms(3) multiplyScalar_def normalize_def Let_def Vector3_def setY_def)
  have away: "0 \<le> dmg \<and> 0 < mass (es ! k) \<longrightarrow> 0 \<le> dot dv (sub (position (es ! k)) playerPos)"
    unfolding assms(3) by (intro impI dot_knockback_nonneg) simp
  have len: "0 \<le> dmg \<and> 0 < mass (es ! k) \<longrightarrow>
               length3 (setY (sub (position (es ! k)) playerPos) 0) \<noteq> 0 \<longrightarrow>
                  length3 dv = dmg * 0.5 / mass (es ! k)"
    by (simp add: assms(3) length3_multiplyScalar length3_normalize)
  from knifeCallback_hit [OF assms(1,2), of dmg] keep y away len show ?thesis
    by (simp add: assms(3))
qed


lemma sqrt_squares: "sqrt 4 = 2" "sqrt 9 = 3" "sqrt 16 = 4" "sqrt 25 = 5"
  using real_sqrt_abs2 [of 2] real_sqrt_abs2 [of 3] real_sqrt_abs2 [of 4] real_sqrt_abs2 [of 5]
  by simp_all

theorem knife_knockback_witness:
  "knifeCallback 20 (Vector3 0 0 1) (Vector3 0 0 0) 0 [enemy_low] =
     [enemy_low\<lparr>health := 80, velocity := Vector3 0 0 5\<rparr>] \<and>
   length3 (Vector3 0 0 5) = 20 * 0.5 / 2"
proof -
  have t: "sub (position ([enemy_low] ! 0)) (Vector3 0 0 0) = Vector3 0 (- 3) 4"
    by (simp add: enemy_low_def enemy_at_def sub_def Vector3_def)
  have a: "length3 (sub (position ([enemy_low] ! 0)) (Vector3 0 0 0)) < knifeRange"
    unfolding t by (simp add: length3_def Vector3_def knifeRange_def sqrt_squares)
  have b: "0 < dot (Vector3 0 0 1) (normalize (sub (position ([enemy_low] ! 0)) (Vector3 0 0 0)))"
    unfolding t
    by (simp add: normalize_def length3_def Vector3_def Let_def multiplyScalar_def dot_def
        sqrt_squares)
  have c: "Vector3 0 0 5 =
     multiplyScalar (normalize (setY (sub (position ([enemy_low] ! 0)) (Vector3 0 0 0)) 0))
        (20 * 0.5 / mass ([enemy_low] ! 0))"
    unfolding t
    by (simp add: normalize_def length3_def Vector3_def Let_def multiplyScalar_def setY_def
        sqrt_squares enemy_low_def)
  have d: "\<not> fst (takeDamage 20 ([enemy_low] ! 0))"
    by (simp add: takeDamage_def enemy_low_def enemy_at_def)
  have e: "length3 (setY (sub (position ([enemy_low] ! 0)) (Vector3 0 0 0)) 0) \<noteq> 0"
    unfolding t by (simp add: length3_def Vector3_def setY_def sqrt_squares)
  from knife_knockback [OF a b c] d e show ?thesis
    by (simp add: takeDamage_def enemy_low_def enemy_at_def) (simp add: add_def Vector3_def)
qed

lemma forward0: "normalize (applyQuaternion (Vector3 0 0 1) (mesh_quaternion (player game0)))
                 = Vector3 0 0 1"
  by (simp add: game0_def Game_new_def player0_def applyQuaternion_def Let_def normalize_def
      length3_def multiplyScalar_def Vector3_def)

lemma knife_z:
  assumes "0 < c" and "c < 10" and "position (es ! k) = Vector3 0 0 c"
  shows "knifeCallback dmg (Vector3 0 0 1) (Vector3 0 0 0) k es =
     (if fst (takeDamage dmg (es ! k))
      then removeEnemy (snd (takeDamage dmg (es ! k))) (es[k := snd (takeDamage dmg (es ! k))])
      else es[k := (snd (takeDamage dmg (es ! k)))\<lparr>velocity :=
            add (velocity (es ! k)) (Vector3 0 0 (dmg * 0.5 / mass (es ! k)))\<rparr>])"
proof -
  note True = assms(3)
  then have t: "sub (position (es ! k)) (Vector3 0 0 0) = Vector3 0 0 c"
    by (simp add: sub_def Vector3_def)
  have l: "length3 (Vector3 0 0 c) = c"
    using assms by (simp add: length3_def Vector3_def)
  have n: "normalize (Vector3 0 0 c) = Vector3 0 0 1"
    using assms l by (simp add: normalize_def Let_def) (simp add: multiplyScalar_def Vector3_def)
  have s: "setY (Vector3 0 0 c) 0 = Vector3 0 0 c"
    by (simp add: setY_def Vector3_def)
  have a: "length3 (sub (position (es ! k)) (Vector3 0 0 0)) < knifeRange"
    unfolding t l using assms(2) by (simp add: knifeRange_def)
  have b: "0 < dot (Vector3 0 0 1) (normalize (sub (position (es ! k)) (Vector3 0 0 0)))"
    unfolding t n by (simp add: dot_def Vector3_def)
  have m: "mass (snd (takeDamage dmg (es ! k))) = mass (es ! k)"
    "velocity (snd (takeDamage dmg (es ! k))) = velocity (es ! k)"
    by (simp_all add: takeDamage_def Let_def)
  have t': "sub (Vector3 0 0 c) (Vector3 0 0 0) = Vector3 0 0 c"
    by (simp add: sub_def Vector3_def)
  have v: "multiplyScalar (Vector3 0 0 1) (dmg * 0.5 / mass (es ! k))
           = Vector3 0 0 (dmg * 0.5 / mass (es ! k))"
    by (simp add: multiplyScalar_def Vector3_def)
  show ?thesis
    by (simp only: knifeCallback_hit [OF a b] m True t' s n v)
qed


lemma knife_game0:
  "player g = player0 \<Longrightarrow>
   onKnifeHit dmg g =
     g\<lparr>enemies := forEach (knifeCallback dmg (Vector3 0 0 1) (Vector3 0 0 0))
                       (length (enemies g)) 0 (enemies g)\<rparr>"
  using forward0
  by (simp add: onKnifeHit_def Let_def game0_def Game_new_def) (simp add: player0_def)

text \<open>
  Which enemies \<^verbatim>\<open>forEach\<close> calls the callback on depends on what
  \<^verbatim>\<open>EnemySpawner.removeEnemy\<close> does to the array that is walked. When the knife kills no
  enemy nothing is removed, and every enemy is tested once and in order.
\<close>

lemma forEach_pointwise:
  assumes "\<And>j ys. j < length ys \<Longrightarrow> P (ys ! j) \<Longrightarrow> f j ys = ys[j := h (ys ! j)]"
    and "\<forall>j. k \<le> j \<and> j < length xs \<longrightarrow> P (xs ! j)"
    and "k \<le> length xs"
  shows "forEach f (length xs) k xs = take k xs @ map h (drop k xs)"
  using assms(2,3)
proof (induction "length xs - k" arbitrary: k xs)
  case 0
  then show ?case
    by (subst forEach.simps) simp
next
  case (Suc d)
  then have lt: "k < length xs"
    by simp
  with Suc.prems have p: "P (xs ! k)"
    by simp
  let ?ys = "xs[k := h (xs ! k)]"
  have f: "f k xs = ?ys"
    using assms(1) [OF lt p] .
  have a: "d = length ?ys - (k + 1)"
    using Suc.hyps(2) by simp
  have b: "\<forall>j. k + 1 \<le> j \<and> j < length ?ys \<longrightarrow> P (?ys ! j)"
    using Suc.prems(1) by simp
  have c: "k + 1 \<le> length ?ys"
    using lt by simp
  from Suc.hyps(1) [OF a b c]
  have "forEach f (length xs) (k + 1) ?ys = take (k + 1) ?ys @ map h (drop (k + 1) ?ys)"
    by simp
  also have "\<dots> = take k xs @ map h (drop k xs)"
    using lt by (simp add: take_Suc_conv_app_nth Cons_nth_drop_Suc [symmetric])
  finally show ?case
    using lt f by (subst forEach.simps) simp
qed

lemma onKnifeHit_no_kill:
  assumes "\<forall>e \<in> set (enemies g). \<not> fst (takeDamage dmg e)"
    and "forward = normalize (applyQuaternion (Vector3 0 0 1) (mesh_quaternion (player g)))"
    and "playerPos = mesh_position (player g)"
  shows "enemies (onKnifeHit dmg g) =
     map (\<lambda>e. if length3 (sub (position e) playerPos) < knifeRange \<and>
                  0 < dot forward (normalize (sub (position e) playerPos))
               then (snd (takeDamage dmg e))\<lparr>velocity :=
                      add (velocity (snd (takeDamage dmg e)))
                          (multiplyScalar (normalize (setY (sub (position e) playerPos) 0))
                             (dmg * 0.5 / mass (snd (takeDamage dmg e))))\<rparr>
               else e)
         (enemies g)"
proof -
  let ?h = "\<lambda>e. if length3 (sub (position e) playerPos) < knifeRange \<and>
                  0 < dot forward (normalize (sub (position e) playerPos))
               then (snd (takeDamage dmg e))\<lparr>velocity :=
                      add (velocity (snd (takeDamage dmg e)))
                          (multiplyScalar (normalize (setY (sub (position e) playerPos) 0))
                             (dmg * 0.5 / mass (snd (takeDamage dmg e))))\<rparr>
               else e"
  have step: "\<And>j ys. j < length ys \<Longrightarrow> \<not> fst (takeDamage dmg (ys ! j)) \<Longrightarrow>
                knifeCallback dmg forward playerPos j ys = ys[j := ?h (ys ! j)]"
  proof -
    fix j and ys :: "enemy list"
    assume "j < length ys" and n: "\<not> fst (takeDamage dmg (ys ! j))"
    show "knifeCallback dmg forward playerPos j ys = ys[j := ?h (ys ! j)]"
    proof (cases "length3 (sub (position (ys ! j)) playerPos) < knifeRange \<and>
                  0 < dot forward (normalize (sub (position (ys ! j)) playerPos))")
      case True
      then show ?thesis
        using n knifeCallback_hit [of ys j playerPos forward dmg] by simp
    next
      case False
      then show ?thesis
        using knifeCallback_miss [of ys j playerPos forward dmg] by auto
    qed
  qed
  have all: "\<forall>j. 0 \<le> j \<and> j < length (enemies g) \<longrightarrow> \<not> fst (takeDamage dmg (enemies g ! j))"
    using assms(1) by simp
  from forEach_pointwise [of "\<lambda>e. \<not> fst (takeDamage dmg e)"
      "knifeCallback dmg forward playerPos" ?h 0 "enemies g", OF step all]
  show ?thesis
    by (simp add: onKnifeHit_def Let_def assms(2,3))
qed

text \<open>
  With a removal in place, as \<open>removeEnemy\<close> is modelled above, \<^verbatim>\<open>forEach\<close> skips the
  element that follows a removed one: of two enemies in range and in front, the knife
  kills the first, and the second, 4 ahead, is not visited.
\<close>

lemma knife_skips_second_enemy:
  "length3 (sub (position (enemies game_knife2 ! 1)) (mesh_position (player game_knife2)))
     < knifeRange \<and>
   0 < dot (normalize (applyQuaternion (Vector3 0 0 1) (mesh_quaternion (player game_knife2))))
           (normalize (sub (position (enemies game_knife2 ! 1))
                           (mesh_position (player game_knife2)))) \<and>
   enemies (onKnifeHit 20 game_knife2) = [enemy_at 2 (Vector3 0 0 4) 100]"
proof -
  have p: "player game_knife2 = player0"
    by (simp add: game_knife2_def game0_def Game_new_def)
  have f: "normalize (applyQuaternion (Vector3 0 0 1) (mesh_quaternion (player game_knife2)))
             = Vector3 0 0 1"
    using forward0 by (simp add: p game0_def Game_new_def)
  have t: "sub (position (enemies game_knife2 ! 1)) (mesh_position (player game_knife2))
             = Vector3 0 0 4"
    by (simp add: game_knife2_def game0_def Game_new_def player0_def enemy_at_def sub_def
        Vector3_def)
  have l: "length3 (Vector3 0 0 4) = 4"
    by (simp add: length3_def Vector3_def sqrt_squares)
  have n: "normalize (Vector3 0 0 4) = Vector3 0 0 1"
    using l by (simp add: normalize_def Let_def) (simp add: multiplyScalar_def Vector3_def)
  have a: "enemies (onKnifeHit 20 game_knife2) = [enemy_at 2 (Vector3 0 0 4) 100]"
    unfolding knife_game0 [OF p]
    by (simp add: game_knife2_def forEach.simps knife_z [of 3] knife_z [of 4] enemy_at_def
        takeDamage_def)
  show ?thesis
    unfolding f t l n using a by (simp add: knifeRange_def dot_def Vector3_def)
qed

text \<open>
  The same with three enemies: the first dies and is removed, the second moves to index 0
  and is not visited, the third is visited at index 1, damaged and pushed back.
\<close>

lemma knife_forEach_skips_after_removal:
  "enemies (onKnifeHit 20 game_knife3) =
     [enemy_at 2 (Vector3 0 0 3) 100,
      (enemy_at 3 (Vector3 0 0 4) 100)\<lparr>health := 80, velocity := Vector3 0 0 10\<rparr>]"
proof -
  have p: "player game_knife3 = player0"
    by (simp add: game_knife3_def game0_def Game_new_def)
  show ?thesis
    unfolding knife_game0 [OF p]
    by (simp add: game_knife3_def forEach.simps knife_z [of 2] knife_z [of 3] knife_z [of 4]
        enemy_at_def takeDamage_def)
       (simp add: add_def Vector3_def)
qed

subsection \<open>Frames without simulation\<close>

lemma animate_frozen:
  assumes "paused g \<or> isGameOver g"
  shows "animate X now g =
           g\<lparr>clock := snd (getDelta now (clock g)),
             frameRequests := frameRequests g + 1,
             renderCount := renderCount g + 1\<rparr>"
  using assms by (auto simp: animate_def Let_def render_def)

lemma frames_frozen:
  assumes "paused g \<or> isGameOver g"
  shows "frames X nows g =
           g\<lparr>clock := foldl (\<lambda>c t. snd (getDelta t c)) (clock g) nows,
             frameRequests := frameRequests g + length nows,
             renderCount := renderCount g + length nows\<rparr>"
  using assms
proof (induction nows arbitrary: g)
  case Nil
  show ?case by simp
next
  case (Cons now nows)
  let ?g = "g\<lparr>clock := snd (getDelta now (clock g)),
             frameRequests := frameRequests g + 1,
             renderCount := renderCount g + 1\<rparr>"
  from Cons.prems have "paused ?g \<or> isGameOver ?g"
    by simp
  from Cons.IH [OF this] animate_frozen [OF Cons.prems, of X now] show ?case
    by simp
qed

lemma getDelta_stopped: "\<not> running c \<Longrightarrow> \<not> autoStart c \<Longrightarrow> getDelta now c = (0, c)"
  by (simp add: getDelta_def)

text \<open>
  Claim C9. A frame of a paused game, and a frame after game over, asks for the next frame,
  reads the clock and renders, and returns: every field of the state but the clock and
  the two counters of frames asked for and rendered is as before, so the player, the
  enemies, the spawner, the bullets, the pickups, the turrets, the molotovs and the camera
  are untouched. The same holds for any run of such frames, so game over stays for good
  while frames go on being rendered. After \<^verbatim>\<open>togglePause\<close> has paused the game the clock is
  stopped, the frame's delta is 0 and the clock does not change either.
\<close>

theorem frozen_frame_no_simulation:
  "(paused g \<or> isGameOver g \<longrightarrow>
      animate X now g =
        g\<lparr>clock := snd (getDelta now (clock g)),
          frameRequests := frameRequests g + 1,
          renderCount := renderCount g + 1\<rparr> \<and>
      frames X nows g =
        g\<lparr>clock := foldl (\<lambda>c t. snd (getDelta t c)) (clock g) nows,
          frameRequests := frameRequests g + length nows,
          renderCount := renderCount g + length nows\<rparr>) \<and>
   (\<not> paused g \<longrightarrow>
      paused (togglePause t g) \<and>
      fst (getDelta now (clock (togglePause t g))) = 0 \<and>
      animate X now (togglePause t g) =
        (togglePause t g)\<lparr>frameRequests := frameRequests g + 1,
                           renderCount := renderCount g + 1\<rparr>)"
proof (intro conjI impI)
  assume a: "paused g \<or> isGameOver g"
  from animate_frozen [OF a] show "animate X now g =
        g\<lparr>clock := snd (getDelta now (clock g)),
          frameRequests := frameRequests g + 1,
          renderCount := renderCount g + 1\<rparr>" .
  from frames_frozen [OF a] show "frames X nows g =
        g\<lparr>clock := foldl (\<lambda>c t. snd (getDelta t c)) (clock g) nows,
          frameRequests := frameRequests g + length nows,
          renderCount := renderCount g + length nows\<rparr>" .
next
  assume n: "\<not> paused g"
  then show p: "paused (togglePause t g)"
    by (simp add: togglePause_def Let_def showFloatingMessage_def)
  from n have c: "\<not> running (clock (togglePause t g))" "\<not> autoStart (clock (togglePause t g))"
    by (simp_all add: togglePause_def Let_def showFloatingMessage_def clock_stop_def)
  from getDelta_stopped [OF c] show "fst (getDelta now (clock (togglePause t g))) = 0"
    by simp
  from n have k: "frameRequests (togglePause t g) = frameRequests g"
    "renderCount (togglePause t g) = renderCount g"
    by (simp_all add: togglePause_def Let_def showFloatingMessage_def)
  from p have "paused (togglePause t g) \<or> isGameOver (togglePause t g)"
    by simp
  from animate_frozen [OF this, of X now] getDelta_stopped [OF c, of now] k
  show "animate X now (togglePause t g) =
        (togglePause t g)\<lparr>frameRequests := frameRequests g + 1,
                           renderCount := renderCount g + 1\<rparr>"
    by simp
qed

theorem frozen_frame_no_simulation_witness:
  "frames ext0 [16, 33, 50] (togglePause 0 game0) =
     (togglePause 0 game0)\<lparr>frameRequests := 3, renderCount := 3\<rparr> \<and>
   frames ext0 [16, 33, 50] (onPlayerDeath game0) =
     (onPlayerDeath game0)\<lparr>clock := \<lparr>autoStart = True, running = True, startTime = 16,
                                     oldTime = 50, elapsedTime = 34 / 1000\<rparr>,
                            frameRequests := 3, renderCount := 3\<rparr>"
proof -
  have p: "paused (togglePause 0 game0) \<or> isGameOver (togglePause 0 game0)"
    by (simp add: togglePause_def Let_def showFloatingMessage_def game0_def Game_new_def)
  have o: "paused (onPlayerDeath game0) \<or> isGameOver (onPlayerDeath game0)"
    by (simp add: onPlayerDeath_def game0_def Game_new_def)
  from frozen_frame_no_simulation [of "togglePause 0 game0" ext0 0 "[16, 33, 50]",
      THEN conjunct1, THEN mp, OF p, THEN conjunct2]
  have a: "frames ext0 [16, 33, 50] (togglePause 0 game0) =
     (togglePause 0 game0)\<lparr>frameRequests := 3, renderCount := 3\<rparr>"
    by (simp add: togglePause_def Let_def showFloatingMessage_def game0_def Game_new_def
        clock_stop_def getDelta_def clock_start_def del: frames.simps)
  from frozen_frame_no_simulation [of "onPlayerDeath game0" ext0 0 "[16, 33, 50]",
      THEN conjunct1, THEN mp, OF o, THEN conjunct2]
  have b: "frames ext0 [16, 33, 50] (onPlayerDeath game0) =
     (onPlayerDeath game0)\<lparr>clock := \<lparr>autoStart = True, running = True, startTime = 16,
                                     oldTime = 50, elapsedTime = 34 / 1000\<rparr>,
                            frameRequests := 3, renderCount := 3\<rparr>"
    by (simp add: onPlayerDeath_def game0_def Game_new_def getDelta_def clock_start_def
        Let_def del: frames.simps)
  from a b show ?thesis
    by simp
qed

subsection \<open>The back-to-front loops\<close>

text \<open>
  The molotov loop of \<^verbatim>\<open>animate\<close> walks the array from its last index down and splices
  at the index it stands on: every molotov is visited exactly once, whatever is removed.
  The bullet and the pickup loops have the same shape.
\<close>

lemma molotovsLoop_visitBack_gen:
  "molotovsLoop X delta (length pre) (pre @ suf) es =
     (case visitBack (Molotov_update X delta) (rev pre) es of
        (kept, es') \<Rightarrow> (kept @ suf, es'))"
proof (induction pre arbitrary: suf es rule: rev_induct)
  case Nil
  show ?case by simp
next
  case (snoc m p)
  obtain dead m1 es1 where u: "Molotov_update X delta es m = (dead, m1, es1)"
    by (cases "Molotov_update X delta es m") auto
  obtain kept es2 where v: "visitBack (Molotov_update X delta) (rev p) es1 = (kept, es2)"
    by (cases "visitBack (Molotov_update X delta) (rev p) es1") auto
  have n: "((p @ [m]) @ suf) ! length p = m"
    by (simp add: nth_append)
  have w: "((p @ [m]) @ suf)[length p := m1] = p @ m1 # suf"
    by (simp add: list_update_append)
  have s1: "splice1 (length p) (p @ m1 # suf) = p @ suf"
    by (simp add: splice1_def)
  show ?case
  proof (cases dead)
    case True
    with snoc [of suf es1] u v n w s1 show ?thesis
      by simp
  next
    case False
    with snoc [of "m1 # suf" es1] u v n w show ?thesis
      by simp
  qed
qed

lemma molotovsLoop_visitBack:
  "molotovsLoop X delta (length ms) ms es = visitBack (Molotov_update X delta) (rev ms) es"
  using molotovsLoop_visitBack_gen [of X delta ms "[]" es]
  by (simp add: split_def)

end
